theory Spec2Isabelle
  imports Complex_Main "HOL-Library.Char_ord" "HOL-Library.List_Lexorder" "HOL-Library.Log_Nat"
begin

section \<open>Colour values\<close>

text \<open>
  Strings are lists of 8-bit characters, read as the UTF-16 code units below 256 of the
  JavaScript string.  \<open>hexToRgb\<close> is followed step by step: \<open>replace('#','')\<close> removes
  the first \<open>#\<close>, a three-character rest is doubled character by character, and
  \<open>parseInt(str, 16)\<close> skips leading white space, reads a sign and an optional \<open>0x\<close>
  prefix and then the longest prefix of hexadecimal digits.
\<close>

record rgb =
  rgb_r :: int
  rgb_g :: int
  rgb_b :: int

fun replace_hash :: "string \<Rightarrow> string" where
  "replace_hash [] = []"
| "replace_hash (c # cs) = (if c = CHR ''#'' then cs else c # replace_hash cs)"

definition isWhiteSpace :: "char \<Rightarrow> bool" where
  "isWhiteSpace c = ((of_char c :: nat) \<in> {9, 10, 11, 12, 13, 32, 160})"

definition hexDigit :: "char \<Rightarrow> int option" where
  "hexDigit c =
     (let n = (of_char c :: int) in
      if 48 \<le> n \<and> n \<le> 57 then Some (n - 48)
      else if 97 \<le> n \<and> n \<le> 102 then Some (n - 87)
      else if 65 \<le> n \<and> n \<le> 70 then Some (n - 55)
      else None)"

text \<open>The values of the longest prefix of hexadecimal digits.\<close>

fun hexPrefix :: "string \<Rightarrow> int list" where
  "hexPrefix [] = []"
| "hexPrefix (c # cs) = (case hexDigit c of None \<Rightarrow> [] | Some d \<Rightarrow> d # hexPrefix cs)"

text \<open>
  The Number that \<open>parseInt\<close> returns for the integer it has read: the integer itself
  below \<open>2\<^sup>5\<^sup>3\<close>, otherwise the nearest value with a 53-bit significand, ties to
  even.  \<open>None\<close> stands for the two results that are not integers, \<open>NaN\<close> (no digit
  was read) and \<open>Infinity\<close>.
\<close>

definition toNumber :: "int \<Rightarrow> int option" where
  "toNumber m =
     (let a = \<bar>m\<bar> in
      if a < 2 ^ 53 then Some m
      else
        let e = nat (bitlen a - 53);
            q = a div 2 ^ e;
            rest = a mod 2 ^ e;
            half = 2 ^ (e - 1);
            q' = (if half < rest \<or> (rest = half \<and> odd q) then q + 1 else q)
        in if 2 ^ 1024 \<le> q' * 2 ^ e then None else Some (sgn m * (q' * 2 ^ e)))"

definition parseInt16 :: "string \<Rightarrow> int option" where
  "parseInt16 s =
     (let s1 = dropWhile isWhiteSpace s;
          negative = (take 1 s1 = ''-'');
          s2 = (if take 1 s1 = ''+'' \<or> take 1 s1 = ''-'' then drop 1 s1 else s1);
          s3 = (if take 2 s2 = ''0x'' \<or> take 2 s2 = ''0X'' then drop 2 s2 else s2);
          z = hexPrefix s3;
          mathInt = foldl (\<lambda>acc d. 16 * acc + d) 0 z
      in if z = [] then None else toNumber (if negative then - mathInt else mathInt))"

text \<open>
  The bitwise operators first convert to a signed 32-bit integer, which sends \<open>NaN\<close>
  and \<open>Infinity\<close> to 0.  On such an integer \<open>>> k\<close> is the floor of the division by
  \<open>2\<^sup>k\<close> and \<open>& 255\<close> is the remainder modulo 256.
\<close>

definition toInt32 :: "int option \<Rightarrow> int" where
  "toInt32 v = (case v of None \<Rightarrow> 0 | Some n \<Rightarrow> (n + 2 ^ 31) mod 2 ^ 32 - 2 ^ 31)"

definition hexToRgb :: "string \<Rightarrow> rgb" where
  "hexToRgb hex =
     (let parsed = replace_hash hex;
          str = (if length parsed = 3 then concat (map (\<lambda>c. [c, c]) parsed) else parsed);
          bigint = toInt32 (parseInt16 str)
      in \<lparr> rgb_r = (bigint div 2 ^ 16) mod 256,
           rgb_g = (bigint div 2 ^ 8) mod 256,
           rgb_b = bigint mod 256 \<rparr>)"

text \<open>
  \<open>colorDistance\<close> is the square root of an integer between 0 and \<open>3 * 255\<^sup>2\<close>.  It is
  a real number here.  The program computes it in floating point, where the correctly
  rounded square root keeps the order of such integers and is exact at the thresholds
  60, 80 and 90, so that every comparison the program makes has the outcome it has on
  the reals.
\<close>

definition distSq :: "string \<Rightarrow> string \<Rightarrow> int" where
  "distSq hex1 hex2 =
     (let a = hexToRgb hex1; b = hexToRgb hex2
      in (rgb_r a - rgb_r b) ^ 2 + (rgb_g a - rgb_g b) ^ 2 + (rgb_b a - rgb_b b) ^ 2)"

definition colorDistance :: "string \<Rightarrow> string \<Rightarrow> real" where
  "colorDistance hex1 hex2 = sqrt (real_of_int (distSq hex1 hex2))"

definition NAMED_COLORS :: "(string \<times> string) list" where
  "NAMED_COLORS =
     [(''#000000'', ''black''), (''#222222'', ''charcoal''), (''#444444'', ''graphite''),
      (''#666666'', ''slate''), (''#888888'', ''gray''),
      (''#FFFFFF'', ''white''), (''#F2F2F2'', ''off white''),
      (''#C0392B'', ''red''), (''#D35400'', ''orange''), (''#F39C12'', ''amber''),
      (''#27AE60'', ''green''), (''#16A085'', ''teal''),
      (''#2980B9'', ''blue''), (''#8E44AD'', ''purple''), (''#E67E22'', ''rust''),
      (''#B87333'', ''copper''), (''#A0522D'', ''brown'')]"

definition NAMED_KEYS :: "string list" where
  "NAMED_KEYS = map fst NAMED_COLORS"

section \<open>Data model\<close>

datatype GarmentType = Top | Bottom | Dress | Outerwear | Shoes | Accessory

datatype FitGoal =
  Elongate | Balance | AccentuateShoulders | AccentuateWaist | MinimizeHips | Relaxed

datatype StyleVibe = Classic | Minimalist | Sporty | Street | Elegant | Boho | Edgy | Preppy

datatype Season = Spring | Summer | Autumn | Winter

datatype BodyType = Rectangle | Triangle | InvertedTriangle | Hourglass | Oval

datatype Undertone = Cool | Warm | Neutral

text \<open>
  The fields \<open>id\<close>, \<open>name\<close> and \<open>type\<close> of the interface \<open>Garment\<close> are
  \<open>gid\<close>, \<open>gname\<close> and \<open>gtype\<close> here, and the \<open>name\<close> of a profile is
  \<open>pname\<close>.  An optional field is an \<open>option\<close>, with \<open>None\<close> for a field that is
  absent; the program tests such a field for truthiness only where the value, when
  present, is an array or one of the listed strings.
\<close>

record Garment =
  gid :: string
  gname :: string
  gtype :: GarmentType
  colorHex :: string
  colorName :: string
  imageDataUrl :: string
  tags :: "string list"
  season :: "Season list option"

record CustomerProfile =
  pname :: "string option"
  bodyType :: "BodyType option"
  heightCm :: "real option"
  skinUndertone :: "Undertone option"
  preferredStyles :: "StyleVibe list"
  avoidNotes :: "string option"
  favoriteColors :: "string list option"
  dislikedColors :: "string list option"
  formalityScale :: "nat option"

record Combo =
  items :: "Garment list"
  rationale :: "string list"

section \<open>The colour namer\<close>

text \<open>
  The loop of \<open>nameNearestColor\<close> carries \<open>best\<close> and \<open>bestD\<close>; \<open>bestD\<close> starts
  at \<open>Infinity\<close>, which is \<open>None\<close> here, and every distance is below it.  The lookup
  \<open>NAMED_COLORS[best]\<close> of a key that is absent would be \<open>undefined\<close>, so the result
  is an \<open>option\<close>.
\<close>

definition nearest_step :: "string \<Rightarrow> string \<times> real option \<Rightarrow> string \<Rightarrow> string \<times> real option" where
  "nearest_step hex st key =
     (let d = colorDistance hex key
      in if (case snd st of None \<Rightarrow> True | Some bestD \<Rightarrow> d < bestD) then (key, Some d) else st)"

definition nearestKey :: "string \<Rightarrow> string" where
  "nearestKey hex = fst (foldl (nearest_step hex) (NAMED_KEYS ! 0, None) NAMED_KEYS)"

definition nameNearestColor :: "string \<Rightarrow> string option" where
  "nameNearestColor hex = map_of NAMED_COLORS (nearestKey hex)"

text \<open>
  \<open>xs.includes(v)\<close> on an array of strings, for a value that may be \<open>undefined\<close>, and
  the text a template literal substitutes for such a value.
\<close>

definition array_includes :: "string list \<Rightarrow> string option \<Rightarrow> bool" where
  "array_includes xs v = (case v of None \<Rightarrow> False | Some s \<Rightarrow> s \<in> set xs)"

definition template_text :: "string option \<Rightarrow> string" where
  "template_text v = (case v of None \<Rightarrow> ''undefined'' | Some s \<Rightarrow> s)"

section \<open>Rules and the compatibility filter\<close>

definition buildRules :: "CustomerProfile \<Rightarrow> FitGoal list" where
  "buildRules profile =
     (if bodyType profile = Some Rectangle then [AccentuateWaist] else []) @
     (if bodyType profile = Some Triangle then [AccentuateShoulders, Elongate] else []) @
     (if bodyType profile = Some InvertedTriangle then [MinimizeHips, Balance] else []) @
     (if bodyType profile = Some Hourglass then [AccentuateWaist] else []) @
     (if bodyType profile = Some Oval then [Elongate, Relaxed] else [])"

definition isColorFriendly :: "string \<Rightarrow> CustomerProfile \<Rightarrow> bool" where
  "isColorFriendly hex profile =
     (case skinUndertone profile of
        None \<Rightarrow> True
      | Some undertone \<Rightarrow>
          (let coolFriendly = [''blue'', ''purple'', ''charcoal'', ''graphite'', ''white'', ''teal''];
               warmFriendly = [''rust'', ''amber'', ''copper'', ''brown'', ''green'', ''off white''];
               name = nameNearestColor hex
           in if undertone = Cool then array_includes coolFriendly name
              else if undertone = Warm then array_includes warmFriendly name
              else True))"

section \<open>The outfit composer\<close>

text \<open>
  \<open>Array.prototype.find\<close> is \<open>find\<close>: the first element that satisfies the predicate,
  or \<open>None\<close> for \<open>undefined\<close>.  Each \<open>forEach\<close> is a left fold whose state is the
  array \<open>combos\<close>; \<open>push\<close> appends at the end.  The rationale of an outfit is built
  by a function of its own for each loop.
\<close>

definition dress_rationale :: "Garment option \<Rightarrow> Garment \<Rightarrow> string list" where
  "dress_rationale layer d =
     [''Dress as one-and-done base'',
      (case layer of
         Some l \<Rightarrow> ''Layer adds structure ('' @ template_text (nameNearestColor (colorHex l))
                    @ '' vs '' @ template_text (nameNearestColor (colorHex d)) @ '')''
       | None \<Rightarrow> ''Minimal layering to elongate line''),
      ''Shoes chosen for contrast'']"

definition dress_step :: "Garment list \<Rightarrow> Garment list \<Rightarrow> Combo list \<Rightarrow> Garment \<Rightarrow> Combo list" where
  "dress_step outers shoes combos d =
     (let layer = find (\<lambda>ou. colorDistance (colorHex ou) (colorHex d) > 90) outers;
          shoe = find (\<lambda>s. colorDistance (colorHex s) (colorHex d) > 60) shoes
      in case shoe of
           None \<Rightarrow> combos
         | Some sh \<Rightarrow>
             (let rationale = dress_rationale layer d
              in combos @ [\<lparr> items = [d] @ (case layer of Some l \<Rightarrow> [l] | None \<Rightarrow> []) @ [sh],
                              rationale = rationale \<rparr>]))"

definition top_rationale :: "FitGoal list \<Rightarrow> Garment \<Rightarrow> Garment \<Rightarrow> string list" where
  "top_rationale rules t bottom =
     [''Top ('' @ template_text (nameNearestColor (colorHex t)) @ '') with ''
        @ template_text (nameNearestColor (colorHex bottom)) @ '' bottom for contrast'']
     @ (if AccentuateWaist \<in> set rules then [''Tuck or belt to define waistline''] else [])
     @ (if Elongate \<in> set rules
        then [''Monochromatic column from top to shoe to elongate silhouette''] else [])
     @ (if AccentuateShoulders \<in> set rules
        then [''Structured shoulder or boat-neck to broaden upper body''] else [])"

definition top_step ::
    "FitGoal list \<Rightarrow> Garment list \<Rightarrow> Garment list \<Rightarrow> Garment list \<Rightarrow> Combo list \<Rightarrow> Garment \<Rightarrow> Combo list" where
  "top_step rules bottoms outers shoes combos t =
     (case find (\<lambda>b. colorDistance (colorHex b) (colorHex t) > 80) bottoms of
        None \<Rightarrow> combos
      | Some bottom \<Rightarrow>
          (let layer = find (\<lambda>ou. colorDistance (colorHex ou) (colorHex t) > 90) outers;
               shoe = find (\<lambda>s. colorDistance (colorHex s) (colorHex bottom) > 60) shoes;
               rationale = top_rationale rules t bottom;
               items = [t, bottom] @ (case layer of Some l \<Rightarrow> [l] | None \<Rightarrow> [])
                         @ (case shoe of Some s \<Rightarrow> [s] | None \<Rightarrow> [])
           in combos @ [\<lparr> items = items, rationale = rationale \<rparr>]))"

text \<open>The two loops, each over a prefix of its anchors.\<close>

definition strategyA :: "Garment list \<Rightarrow> Garment list \<Rightarrow> Garment list \<Rightarrow> Combo list" where
  "strategyA dresses outers shoes = foldl (dress_step outers shoes) [] (take 6 dresses)"

definition strategyB ::
    "FitGoal list \<Rightarrow> Garment list \<Rightarrow> Garment list \<Rightarrow> Garment list \<Rightarrow> Garment list
       \<Rightarrow> Combo list \<Rightarrow> Combo list" where
  "strategyB rules tops bottoms outers shoes combos =
     foldl (top_step rules bottoms outers shoes) combos (take 8 tops)"

text \<open>The array \<open>combos\<close> after both loops, before filtering.\<close>

definition candidates :: "Garment list \<Rightarrow> CustomerProfile \<Rightarrow> Combo list" where
  "candidates garments profile =
     (let tops = filter (\<lambda>g. gtype g = Top) garments;
          bottoms = filter (\<lambda>g. gtype g = Bottom) garments;
          dresses = filter (\<lambda>g. gtype g = Dress) garments;
          outers = filter (\<lambda>g. gtype g = Outerwear) garments;
          shoes = filter (\<lambda>g. gtype g = Shoes) garments;
          accessories = filter (\<lambda>g. gtype g = Accessory) garments;
          rules = buildRules profile;
          combos = strategyA dresses outers shoes
      in strategyB rules tops bottoms outers shoes combos)"

text \<open>The test that \<open>every\<close> applies to each item of a candidate.\<close>

definition acceptable_item :: "CustomerProfile \<Rightarrow> Garment \<Rightarrow> bool" where
  "acceptable_item profile i =
     ((case dislikedColors profile of
         None \<Rightarrow> True
       | Some disliked \<Rightarrow> \<not> array_includes disliked (nameNearestColor (colorHex i))) \<and>
      (case favoriteColors profile of
         None \<Rightarrow> True
       | Some favorite \<Rightarrow>
           length favorite = 0 \<or> array_includes favorite (nameNearestColor (colorHex i))) \<and>
      isColorFriendly (colorHex i) profile)"

text \<open>\<open>Array.prototype.join\<close> on strings.\<close>

fun join :: "string \<Rightarrow> string list \<Rightarrow> string" where
  "join sep [] = []"
| "join sep [x] = x"
| "join sep (x # y # ys) = x @ sep @ join sep (y # ys)"

text \<open>
  The default \<open>sort()\<close> orders strings by their code units, which is the lexicographic
  order of character lists.
\<close>

text \<open>The deduplication loop carries the array \<open>uniq\<close> and the set \<open>seen\<close>.\<close>

definition combo_key :: "Combo \<Rightarrow> string" where
  "combo_key c = join ''-'' (sort (map gid (items c)))"

definition dedup_step :: "Combo list \<times> string set \<Rightarrow> Combo \<Rightarrow> Combo list \<times> string set" where
  "dedup_step st c =
     (let key = combo_key c
      in if key \<notin> snd st then (fst st @ [c], insert key (snd st)) else st)"

definition mixAndMatch :: "Garment list \<Rightarrow> CustomerProfile \<Rightarrow> Combo list" where
  "mixAndMatch garments profile =
     (let combos = candidates garments profile;
          filtered = filter (\<lambda>c. list_all (acceptable_item profile) (items c)) combos;
          uniq = fst (foldl dedup_step ([], {}) filtered)
      in take 12 uniq)"

section \<open>The specification's reading of the pairing rules\<close>

text \<open>
  The first garment of type \<open>ty\<close>, in wardrobe order, whose colour distance from the
  colour \<open>hex\<close> exceeds \<open>thr\<close>.
\<close>

fun first_exceeding :: "GarmentType \<Rightarrow> real \<Rightarrow> string \<Rightarrow> Garment list \<Rightarrow> Garment option" where
  "first_exceeding ty thr hex [] = None"
| "first_exceeding ty thr hex (g # gs) =
     (if gtype g = ty \<and> thr < colorDistance (colorHex g) hex then Some g
      else first_exceeding ty thr hex gs)"

definition option_items :: "Garment option \<Rightarrow> Garment list" where
  "option_items v = (case v of None \<Rightarrow> [] | Some g \<Rightarrow> [g])"

text \<open>
  Strategy B as the specification words it: a top yields no outfit when no bottom is far
  enough from it, and otherwise the outfit of the top, that bottom, the optional
  outerwear (measured against the top) and the optional shoes (measured against the
  bottom).
\<close>

definition strategyB_outfit :: "Garment list \<Rightarrow> Garment \<Rightarrow> Garment list option" where
  "strategyB_outfit garments t =
     (case first_exceeding Bottom 80 (colorHex t) garments of
        None \<Rightarrow> None
      | Some b \<Rightarrow>
          Some ([t, b] @ option_items (first_exceeding Outerwear 90 (colorHex t) garments)
                  @ option_items (first_exceeding Shoes 60 (colorHex b) garments)))"

text \<open>
  Deduplication as the specification words it: an element is kept when it is the first
  with its key, and every later element with that key is dropped; the order of the kept
  elements is their order in the input.
\<close>

fun keep_first :: "('a \<Rightarrow> 'k) \<Rightarrow> 'a list \<Rightarrow> 'a list" where
  "keep_first key [] = []"
| "keep_first key (x # xs) = x # keep_first key (filter (\<lambda>y. key y \<noteq> key x) xs)"

text \<open>A garment and an outfit with the stored colour name blanked.\<close>

definition erase_colorName :: "Garment \<Rightarrow> Garment" where
  "erase_colorName g = g\<lparr>colorName := []\<rparr>"

definition erase_combo :: "Combo \<Rightarrow> Combo" where
  "erase_combo c = c\<lparr>items := map erase_colorName (items c)\<rparr>"

section \<open>Example data\<close>

definition garment :: "string \<Rightarrow> GarmentType \<Rightarrow> string \<Rightarrow> Garment" where
  "garment i ty hex =
     \<lparr> gid = i, gname = [], gtype = ty, colorHex = hex, colorName = [],
       imageDataUrl = [], tags = [], season = None \<rparr>"

text \<open>The profile the application starts with.\<close>

definition default_profile :: CustomerProfile where
  "default_profile =
     \<lparr> pname = None, bodyType = None, heightCm = None, skinUndertone = None,
       preferredStyles = [Classic, Minimalist], avoidNotes = None,
       favoriteColors = None, dislikedColors = None, formalityScale = Some 3 \<rparr>"

text \<open>Two tops and two bottoms in four palette colours that are pairwise far apart.\<close>

definition top_black :: Garment where "top_black = garment ''t1'' Top ''#000000''"
definition top_white :: Garment where "top_white = garment ''t2'' Top ''#FFFFFF''"
definition bottom_red :: Garment where "bottom_red = garment ''b1'' Bottom ''#C0392B''"
definition bottom_blue :: Garment where "bottom_blue = garment ''b2'' Bottom ''#2980B9''"

definition wardrobe_2x2 :: "Garment list" where
  "wardrobe_2x2 = [top_black, top_white, bottom_red, bottom_blue]"

definition outfit_black_red :: Combo where
  "outfit_black_red =
     \<lparr> items = [top_black, bottom_red],
       rationale = [''Top (black) with red bottom for contrast''] \<rparr>"

definition outfit_white_red :: Combo where
  "outfit_white_red =
     \<lparr> items = [top_white, bottom_red],
       rationale = [''Top (white) with red bottom for contrast''] \<rparr>"

text \<open>A wardrobe in one colour, where nothing contrasts, and a lone dress.\<close>

definition wardrobe_flat :: "Garment list" where
  "wardrobe_flat =
     [garment ''t1'' Top ''#000000'', garment ''b1'' Bottom ''#000000'',
      garment ''d1'' Dress ''#000000'', garment ''s1'' Shoes ''#000000'']"

definition dress_red :: Garment where "dress_red = garment ''d1'' Dress ''#C0392B''"

text \<open>Four garments on two ids: each top shares its id with another garment.\<close>

definition wardrobe_shared_ids :: "Garment list" where
  "wardrobe_shared_ids =
     [garment ''x'' Top ''#000000'', garment ''y'' Top ''#FFFFFF'',
      garment ''x'' Bottom ''#C0392B'', garment ''y'' Shoes ''#2980B9'']"

text \<open>The first of these wardrobes with another stored colour name on every garment.\<close>

definition wardrobe_2x2_renamed :: "Garment list" where
  "wardrobe_2x2_renamed = map (\<lambda>g. g\<lparr>colorName := ''mauve''\<rparr>) wardrobe_2x2"

text \<open>A profile that constrains all three: dislikes, favourites and undertone.\<close>

definition cool_profile :: CustomerProfile where
  "cool_profile =
     default_profile\<lparr> skinUndertone := Some Cool,
                      favoriteColors := Some [''blue'', ''white''],
                      dislikedColors := Some [''red''] \<rparr>"

definition top_blue :: Garment where "top_blue = garment ''t1'' Top ''#2980B9''"
definition bottom_white :: Garment where "bottom_white = garment ''b1'' Bottom ''#FFFFFF''"

definition wardrobe_cool :: "Garment list" where
  "wardrobe_cool = [top_blue, bottom_white, top_black]"

definition outfit_blue_white :: Combo where
  "outfit_blue_white =
     \<lparr> items = [top_blue, bottom_white],
       rationale = [''Top (blue) with white bottom for contrast''] \<rparr>"

section \<open>Distances are compared on their squares\<close>

text \<open>
  A distance is the square root of an integer below \<open>3 * 255\<^sup>2\<close>, so every comparison
  the program makes between two distances, or between a distance and a threshold, is a
  comparison of integers.
\<close>

lemma distSq_nonneg: "0 \<le> distSq a b"
  by (simp add: distSq_def Let_def)

lemma exceeds_iff: "(thr < colorDistance a b) = (thr < 0 \<or> thr ^ 2 < real_of_int (distSq a b))"
proof (cases "thr < 0")
  case True
  have "0 \<le> colorDistance a b" by (simp add: colorDistance_def distSq_nonneg)
  with True show ?thesis by simp
next
  case False
  then have "sqrt (thr ^ 2) = thr" by simp
  moreover have "(sqrt (thr ^ 2) < sqrt (real_of_int (distSq a b))) = (thr ^ 2 < real_of_int (distSq a b))"
    by (rule real_sqrt_less_iff)
  ultimately show ?thesis using False by (simp add: colorDistance_def)
qed

lemma exceeds_90: "(90 < colorDistance a b) = (8100 < distSq a b)"
proof -
  have "(90 < colorDistance a b) = ((90::real) ^ 2 < real_of_int (distSq a b))"
    by (simp add: exceeds_iff)
  also have "\<dots> = (real_of_int 8100 < real_of_int (distSq a b))" by simp
  also have "\<dots> = (8100 < distSq a b)" by (rule of_int_less_iff)
  finally show ?thesis .
qed

lemma exceeds_80: "(80 < colorDistance a b) = (6400 < distSq a b)"
proof -
  have "(80 < colorDistance a b) = ((80::real) ^ 2 < real_of_int (distSq a b))"
    by (simp add: exceeds_iff)
  also have "\<dots> = (real_of_int 6400 < real_of_int (distSq a b))" by simp
  also have "\<dots> = (6400 < distSq a b)" by (rule of_int_less_iff)
  finally show ?thesis .
qed

lemma exceeds_60: "(60 < colorDistance a b) = (3600 < distSq a b)"
proof -
  have "(60 < colorDistance a b) = ((60::real) ^ 2 < real_of_int (distSq a b))"
    by (simp add: exceeds_iff)
  also have "\<dots> = (real_of_int 3600 < real_of_int (distSq a b))" by simp
  also have "\<dots> = (3600 < distSq a b)" by (rule of_int_less_iff)
  finally show ?thesis .
qed

lemma closer_iff: "(colorDistance a k < colorDistance a k') = (distSq a k < distSq a k')"
  by (simp add: colorDistance_def)

text \<open>The two loop bodies say what they append; the thresholds are compared on squares.\<close>

lemma dress_step_eq:
  "dress_step outers shoes combos d =
     combos @
     (case find (\<lambda>s. 3600 < distSq (colorHex s) (colorHex d)) shoes of
        None \<Rightarrow> []
      | Some sh \<Rightarrow>
          [\<lparr> items = [d] @ option_items (find (\<lambda>ou. 8100 < distSq (colorHex ou) (colorHex d)) outers) @ [sh],
              rationale = dress_rationale (find (\<lambda>ou. 8100 < distSq (colorHex ou) (colorHex d)) outers) d \<rparr>])"
  unfolding dress_step_def exceeds_90 exceeds_60
  by (simp add: Let_def option_items_def split: option.split)

lemma top_step_eq:
  "top_step rules bottoms outers shoes combos t =
     combos @
     (case find (\<lambda>b. 6400 < distSq (colorHex b) (colorHex t)) bottoms of
        None \<Rightarrow> []
      | Some bottom \<Rightarrow>
          [\<lparr> items = [t, bottom]
                      @ option_items (find (\<lambda>ou. 8100 < distSq (colorHex ou) (colorHex t)) outers)
                      @ option_items (find (\<lambda>s. 3600 < distSq (colorHex s) (colorHex bottom)) shoes),
              rationale = top_rationale rules t bottom \<rparr>])"
  unfolding top_step_def exceeds_90 exceeds_80 exceeds_60
  by (simp add: Let_def option_items_def split: option.split)

lemma nearest_fold:
  "foldl (nearest_step hex) (b, map_option (\<lambda>n. sqrt (real_of_int n)) bd) ks =
   map_prod id (map_option (\<lambda>n. sqrt (real_of_int n)))
     (foldl (\<lambda>st key. if (case snd st of None \<Rightarrow> True | Some bestD \<Rightarrow> distSq hex key < bestD)
                        then (key, Some (distSq hex key)) else st) (b, bd) ks)"
proof (induction ks arbitrary: b bd)
  case Nil
  show ?case by simp
next
  case (Cons k ks)
  show ?case
  proof (cases "case bd of None \<Rightarrow> True | Some bestD \<Rightarrow> distSq hex k < bestD")
    case True
    then have "nearest_step hex (b, map_option (\<lambda>n. sqrt (real_of_int n)) bd) k
               = (k, map_option (\<lambda>n. sqrt (real_of_int n)) (Some (distSq hex k)))"
      by (cases bd) (simp_all add: nearest_step_def colorDistance_def)
    with True show ?thesis using Cons.IH [of k "Some (distSq hex k)"] by simp
  next
    case False
    then have "nearest_step hex (b, map_option (\<lambda>n. sqrt (real_of_int n)) bd) k
               = (b, map_option (\<lambda>n. sqrt (real_of_int n)) bd)"
      by (cases bd) (simp_all add: nearest_step_def colorDistance_def)
    with False show ?thesis using Cons.IH [of b bd] by simp
  qed
qed

lemma nearestKey_code:
  "nearestKey hex =
     fst (foldl (\<lambda>st key. if (case snd st of None \<Rightarrow> True | Some bestD \<Rightarrow> distSq hex key < bestD)
                           then (key, Some (distSq hex key)) else st)
            (NAMED_KEYS ! 0, None) NAMED_KEYS)"
  using nearest_fold [of hex "NAMED_KEYS ! 0" None NAMED_KEYS] by (simp add: nearestKey_def)



section \<open>Evaluating the examples\<close>

lemma palette_rgb:
  "map hexToRgb NAMED_KEYS =
     [\<lparr>rgb_r = 0, rgb_g = 0, rgb_b = 0\<rparr>, \<lparr>rgb_r = 34, rgb_g = 34, rgb_b = 34\<rparr>,
      \<lparr>rgb_r = 68, rgb_g = 68, rgb_b = 68\<rparr>, \<lparr>rgb_r = 102, rgb_g = 102, rgb_b = 102\<rparr>,
      \<lparr>rgb_r = 136, rgb_g = 136, rgb_b = 136\<rparr>, \<lparr>rgb_r = 255, rgb_g = 255, rgb_b = 255\<rparr>,
      \<lparr>rgb_r = 242, rgb_g = 242, rgb_b = 242\<rparr>, \<lparr>rgb_r = 192, rgb_g = 57, rgb_b = 43\<rparr>,
      \<lparr>rgb_r = 211, rgb_g = 84, rgb_b = 0\<rparr>, \<lparr>rgb_r = 243, rgb_g = 156, rgb_b = 18\<rparr>,
      \<lparr>rgb_r = 39, rgb_g = 174, rgb_b = 96\<rparr>, \<lparr>rgb_r = 22, rgb_g = 160, rgb_b = 133\<rparr>,
      \<lparr>rgb_r = 41, rgb_g = 128, rgb_b = 185\<rparr>, \<lparr>rgb_r = 142, rgb_g = 68, rgb_b = 173\<rparr>,
      \<lparr>rgb_r = 230, rgb_g = 126, rgb_b = 34\<rparr>, \<lparr>rgb_r = 184, rgb_g = 115, rgb_b = 51\<rparr>,
      \<lparr>rgb_r = 160, rgb_g = 82, rgb_b = 45\<rparr>]"
  by code_simp

lemmas palette_rgb_each = palette_rgb [unfolded NAMED_KEYS_def NAMED_COLORS_def, simplified]

lemma name_black: "nameNearestColor ''#000000'' = Some ''black''"
  by (simp add: nameNearestColor_def nearestKey_code NAMED_KEYS_def NAMED_COLORS_def distSq_def palette_rgb_each)

lemma name_white: "nameNearestColor ''#FFFFFF'' = Some ''white''"
  by (simp add: nameNearestColor_def nearestKey_code NAMED_KEYS_def NAMED_COLORS_def distSq_def palette_rgb_each)

lemma name_red: "nameNearestColor ''#C0392B'' = Some ''red''"
  by (simp add: nameNearestColor_def nearestKey_code NAMED_KEYS_def NAMED_COLORS_def distSq_def palette_rgb_each)

lemma name_blue: "nameNearestColor ''#2980B9'' = Some ''blue''"
  by (simp add: nameNearestColor_def nearestKey_code NAMED_KEYS_def NAMED_COLORS_def distSq_def palette_rgb_each)

lemmas example_defs = wardrobe_2x2_def top_black_def top_white_def bottom_red_def bottom_blue_def
  garment_def default_profile_def cool_profile_def wardrobe_cool_def top_blue_def bottom_white_def
  outfit_black_red_def outfit_white_red_def outfit_blue_white_def wardrobe_flat_def dress_red_def
  wardrobe_shared_ids_def

lemmas eval_simps = mixAndMatch_def candidates_def strategyA_def strategyB_def top_step_eq
  dress_step_eq option_items_def dress_rationale_def top_rationale_def acceptable_item_def
  isColorFriendly_def array_includes_def template_text_def
  buildRules_def dedup_step_def combo_key_def distSq_def palette_rgb_each
  name_black name_white name_red name_blue

lemma mm_2x2: "mixAndMatch wardrobe_2x2 default_profile = [outfit_black_red, outfit_white_red]"
  by (simp add: eval_simps example_defs)

lemma mm_cool: "mixAndMatch wardrobe_cool cool_profile = [outfit_blue_white]"
  by (simp add: eval_simps example_defs)

section \<open>The cap\<close>

text \<open>
  Claim C2.  For every wardrobe and profile the list returned by \<open>mixAndMatch\<close> has at
  most 12 outfits.
\<close>

theorem mixAndMatch_length_le_12: "length (mixAndMatch garments profile) \<le> 12"
  by (simp add: mixAndMatch_def Let_def)

theorem mixAndMatch_length_le_12_witness:
  "length (mixAndMatch wardrobe_2x2 default_profile) = 2 \<and>
   length (mixAndMatch wardrobe_2x2 default_profile) \<le> 12"
  using mixAndMatch_length_le_12 [of wardrobe_2x2 default_profile] by (simp add: mm_2x2)

section \<open>The colour namer returns the first nearest palette entry\<close>

lemma nearest_step_first: "nearest_step hex (b, None) k = (k, Some (colorDistance hex k))"
  by (simp add: nearest_step_def)

lemma nearest_step_later:
  "nearest_step hex (b, Some bd) k =
     (if colorDistance hex k < bd then (k, Some (colorDistance hex k)) else (b, Some bd))"
  by (simp add: nearest_step_def)

lemma nearest_fold_first_min:
  assumes "ks \<noteq> []"
  shows "\<exists>i<length ks.
           foldl (nearest_step hex) (b0, None) ks = (ks ! i, Some (colorDistance hex (ks ! i))) \<and>
           (\<forall>j<length ks. colorDistance hex (ks ! i) \<le> colorDistance hex (ks ! j)) \<and>
           (\<forall>j<i. colorDistance hex (ks ! i) < colorDistance hex (ks ! j))"
  using assms
proof (induction ks rule: rev_induct)
  case Nil
  then show ?case by simp
next
  case (snoc x xs)
  show ?case
  proof (cases "xs = []")
    case True
    then have "foldl (nearest_step hex) (b0, None) (xs @ [x]) = (x, Some (colorDistance hex x))"
      by (simp add: nearest_step_first)
    with True show ?thesis by simp
  next
    case False
    from snoc.IH [OF False] obtain i where i: "i < length xs"
      and st: "foldl (nearest_step hex) (b0, None) xs = (xs ! i, Some (colorDistance hex (xs ! i)))"
      and le: "\<forall>j<length xs. colorDistance hex (xs ! i) \<le> colorDistance hex (xs ! j)"
      and lt: "\<forall>j<i. colorDistance hex (xs ! i) < colorDistance hex (xs ! j)"
      by blast
    show ?thesis
    proof (cases "colorDistance hex x < colorDistance hex (xs ! i)")
      case True
      have "foldl (nearest_step hex) (b0, None) (xs @ [x]) = (x, Some (colorDistance hex x))"
        using st True by (simp add: nearest_step_later)
      moreover have "\<forall>j<length (xs @ [x]). colorDistance hex x \<le> colorDistance hex ((xs @ [x]) ! j)"
      proof (intro allI impI)
        fix j assume j: "j < length (xs @ [x])"
        show "colorDistance hex x \<le> colorDistance hex ((xs @ [x]) ! j)"
        proof (cases "j < length xs")
          case True
          with le have "colorDistance hex (xs ! i) \<le> colorDistance hex (xs ! j)" by simp
          with \<open>colorDistance hex x < colorDistance hex (xs ! i)\<close> True show ?thesis
            by (simp add: nth_append)
        next
          case False
          with j have "j = length xs" by simp
          then show ?thesis by simp
        qed
      qed
      moreover have "\<forall>j<length xs. colorDistance hex x < colorDistance hex ((xs @ [x]) ! j)"
      proof (intro allI impI)
        fix j assume j: "j < length xs"
        with le have "colorDistance hex (xs ! i) \<le> colorDistance hex (xs ! j)" by simp
        with True j show "colorDistance hex x < colorDistance hex ((xs @ [x]) ! j)"
          by (simp add: nth_append)
      qed
      ultimately show ?thesis
        by (intro exI [of _ "length xs"]) simp
    next
      case False
      have "foldl (nearest_step hex) (b0, None) (xs @ [x]) = (xs ! i, Some (colorDistance hex (xs ! i)))"
        using st False by (simp add: nearest_step_later)
      moreover have "\<forall>j<length (xs @ [x]). colorDistance hex (xs ! i) \<le> colorDistance hex ((xs @ [x]) ! j)"
      proof (intro allI impI)
        fix j assume j: "j < length (xs @ [x])"
        show "colorDistance hex (xs ! i) \<le> colorDistance hex ((xs @ [x]) ! j)"
        proof (cases "j < length xs")
          case True
          with le show ?thesis by (simp add: nth_append)
        next
          case nl: False
          with j have "j = length xs" by simp
          with False show ?thesis by simp
        qed
      qed
      moreover have "\<forall>j<i. colorDistance hex (xs ! i) < colorDistance hex ((xs @ [x]) ! j)"
        using lt i by (simp add: nth_append)
      ultimately show ?thesis using i
        by (intro exI [of _ i]) (simp add: nth_append)
    qed
  qed
qed

lemma palette_keys_distinct: "distinct (map fst NAMED_COLORS)"
  by (simp add: NAMED_COLORS_def)

lemma palette_lookup:
  assumes "i < length NAMED_COLORS"
  shows "map_of NAMED_COLORS (fst (NAMED_COLORS ! i)) = Some (snd (NAMED_COLORS ! i))"
proof -
  have "NAMED_COLORS ! i \<in> set NAMED_COLORS" using assms by (rule nth_mem)
  then have "(fst (NAMED_COLORS ! i), snd (NAMED_COLORS ! i)) \<in> set NAMED_COLORS" by simp
  then show ?thesis using palette_keys_distinct by (simp add: map_of_eq_Some_iff)
qed

lemma nameNearestColor_first_min:
  "\<exists>i<length NAMED_COLORS.
      nameNearestColor hex = Some (snd (NAMED_COLORS ! i)) \<and>
      (\<forall>j<length NAMED_COLORS.
          colorDistance hex (fst (NAMED_COLORS ! i)) \<le> colorDistance hex (fst (NAMED_COLORS ! j))) \<and>
      (\<forall>j<i. colorDistance hex (fst (NAMED_COLORS ! i)) < colorDistance hex (fst (NAMED_COLORS ! j)))"
proof -
  have ne: "NAMED_KEYS \<noteq> []" by (simp add: NAMED_KEYS_def NAMED_COLORS_def)
  have len: "length NAMED_KEYS = length NAMED_COLORS" by (simp add: NAMED_KEYS_def)
  from nearest_fold_first_min [OF ne, of hex "NAMED_KEYS ! 0"]
  obtain i where i: "i < length NAMED_KEYS"
    and st: "foldl (nearest_step hex) (NAMED_KEYS ! 0, None) NAMED_KEYS
               = (NAMED_KEYS ! i, Some (colorDistance hex (NAMED_KEYS ! i)))"
    and le: "\<forall>j<length NAMED_KEYS. colorDistance hex (NAMED_KEYS ! i) \<le> colorDistance hex (NAMED_KEYS ! j)"
    and lt: "\<forall>j<i. colorDistance hex (NAMED_KEYS ! i) < colorDistance hex (NAMED_KEYS ! j)"
    by blast
  have key: "\<And>j. j < length NAMED_COLORS \<Longrightarrow> NAMED_KEYS ! j = fst (NAMED_COLORS ! j)"
    by (simp add: NAMED_KEYS_def)
  have i': "i < length NAMED_COLORS" using i len by simp
  have "nameNearestColor hex = Some (snd (NAMED_COLORS ! i))"
    using st palette_lookup [OF i'] key [OF i'] by (simp add: nameNearestColor_def nearestKey_def)
  moreover have "\<forall>j<length NAMED_COLORS.
      colorDistance hex (fst (NAMED_COLORS ! i)) \<le> colorDistance hex (fst (NAMED_COLORS ! j))"
    using le len key i' by simp
  moreover have "\<forall>j<i. colorDistance hex (fst (NAMED_COLORS ! i)) < colorDistance hex (fst (NAMED_COLORS ! j))"
    using lt key i' by simp
  ultimately show ?thesis using i' by blast
qed

lemma nameNearestColor_Some: "\<exists>n. nameNearestColor hex = Some n \<and> n \<in> set (map snd NAMED_COLORS)"
proof -
  from nameNearestColor_first_min [of hex] obtain i where "i < length NAMED_COLORS"
    and "nameNearestColor hex = Some (snd (NAMED_COLORS ! i))" by blast
  then show ?thesis by (metis length_map nth_map nth_mem)
qed

lemma name_111111: "nameNearestColor ''#111111'' = Some ''black''"
proof -
  have "hexToRgb ''#111111'' = \<lparr> rgb_r = 17, rgb_g = 17, rgb_b = 17 \<rparr>" by code_simp
  then show ?thesis
    by (simp add: nameNearestColor_def nearestKey_code NAMED_KEYS_def NAMED_COLORS_def distSq_def
        palette_rgb_each)
qed

lemma tie_111111: "colorDistance ''#111111'' ''#000000'' = colorDistance ''#111111'' ''#222222''"
proof -
  have "hexToRgb ''#111111'' = \<lparr> rgb_r = 17, rgb_g = 17, rgb_b = 17 \<rparr>" by code_simp
  then show ?thesis by (simp add: colorDistance_def distSq_def palette_rgb_each)
qed

text \<open>
  Claim C4.  For every input string, \<open>nameNearestColor\<close> returns the name of a palette
  entry whose distance to the input is minimal over the whole palette; every entry that
  comes earlier in the palette's order is strictly farther, so a tie goes to the first
  entry.  The result is always present and is one of the palette's names.
\<close>

theorem nameNearestColor_nearest_palette_entry:
  "\<exists>i<length NAMED_COLORS.
      nameNearestColor hex = Some (snd (NAMED_COLORS ! i)) \<and>
      (\<forall>j<length NAMED_COLORS.
          colorDistance hex (fst (NAMED_COLORS ! i)) \<le> colorDistance hex (fst (NAMED_COLORS ! j))) \<and>
      (\<forall>j<i. colorDistance hex (fst (NAMED_COLORS ! i)) < colorDistance hex (fst (NAMED_COLORS ! j)))"
  by (rule nameNearestColor_first_min)

theorem nameNearestColor_nearest_palette_entry_witness:
  "nameNearestColor ''#111111'' = Some ''black'' \<and>
   colorDistance ''#111111'' ''#000000'' = colorDistance ''#111111'' ''#222222'' \<and>
   (\<exists>i<length NAMED_COLORS.
      nameNearestColor ''#111111'' = Some (snd (NAMED_COLORS ! i)) \<and>
      (\<forall>j<length NAMED_COLORS.
          colorDistance ''#111111'' (fst (NAMED_COLORS ! i))
            \<le> colorDistance ''#111111'' (fst (NAMED_COLORS ! j))) \<and>
      (\<forall>j<i. colorDistance ''#111111'' (fst (NAMED_COLORS ! i))
            < colorDistance ''#111111'' (fst (NAMED_COLORS ! j))))"
  using nameNearestColor_nearest_palette_entry [of "''#111111''"] name_111111 tie_111111
  by simp


section \<open>The shape of the composer\<close>

text \<open>
  Each loop appends to \<open>combos\<close> what its body yields for one anchor, so the candidates
  are the concatenation of the per-anchor results; the deduplication loop keeps the
  first outfit of every key.
\<close>

lemma foldl_appending:
  assumes "\<And>acc x. f acc x = acc @ f [] x"
  shows "foldl f acc xs = acc @ concat (map (f []) xs)"
proof (induction xs arbitrary: acc)
  case Nil
  show ?case by simp
next
  case (Cons x xs)
  have "foldl f acc (x # xs) = foldl f (f acc x) xs" by simp
  also have "\<dots> = f acc x @ concat (map (f []) xs)" by (rule Cons.IH)
  also have "\<dots> = acc @ f [] x @ concat (map (f []) xs)" using assms [of acc x] by simp
  finally show ?case by simp
qed

lemma dress_step_append: "dress_step outers shoes combos d = combos @ dress_step outers shoes [] d"
  by (simp add: dress_step_eq)

lemma top_step_append:
  "top_step rules bottoms outers shoes combos t = combos @ top_step rules bottoms outers shoes [] t"
  by (simp add: top_step_eq)

lemma strategyA_concat:
  "strategyA dresses outers shoes = concat (map (dress_step outers shoes []) (take 6 dresses))"
proof -
  have "foldl (dress_step outers shoes) [] (take 6 dresses)
          = [] @ concat (map (dress_step outers shoes []) (take 6 dresses))"
    by (rule foldl_appending) (rule dress_step_append)
  then show ?thesis by (simp add: strategyA_def)
qed

lemma strategyB_concat:
  "strategyB rules tops bottoms outers shoes combos =
     combos @ concat (map (top_step rules bottoms outers shoes []) (take 8 tops))"
  unfolding strategyB_def by (rule foldl_appending) (rule top_step_append)

lemma find_Some_set: "find P xs = Some x \<Longrightarrow> x \<in> set xs \<and> P x"
  by (induction xs) (auto split: if_splits)

lemma option_items_find:
  assumes "x \<in> set (option_items (find P xs))"
  shows "x \<in> set xs \<and> P x"
proof (cases "find P xs")
  case None
  with assms show ?thesis by (simp add: option_items_def)
next
  case (Some y)
  with assms have "x = y" by (simp add: option_items_def)
  with Some show ?thesis using find_Some_set [of P xs y] by simp
qed

lemma candidates_concat:
  "candidates garments profile =
     concat (map (dress_step (filter (\<lambda>g. gtype g = Outerwear) garments)
                             (filter (\<lambda>g. gtype g = Shoes) garments) [])
                 (take 6 (filter (\<lambda>g. gtype g = Dress) garments))) @
     concat (map (top_step (buildRules profile) (filter (\<lambda>g. gtype g = Bottom) garments)
                           (filter (\<lambda>g. gtype g = Outerwear) garments)
                           (filter (\<lambda>g. gtype g = Shoes) garments) [])
                 (take 8 (filter (\<lambda>g. gtype g = Top) garments)))"
  by (simp add: candidates_def Let_def strategyA_concat strategyB_concat)

lemma dedup_fold:
  "fst (foldl dedup_step (u, seen) cs)
     = u @ keep_first combo_key (filter (\<lambda>c. combo_key c \<notin> seen) cs)"
proof (induction cs arbitrary: u seen)
  case Nil
  show ?case by simp
next
  case (Cons c cs)
  show ?case
  proof (cases "combo_key c \<in> seen")
    case True
    then have "dedup_step (u, seen) c = (u, seen)" by (simp add: dedup_step_def)
    with True show ?thesis using Cons.IH [of u seen] by simp
  next
    case False
    then have step: "dedup_step (u, seen) c = (u @ [c], insert (combo_key c) seen)"
      by (simp add: dedup_step_def)
    have "filter (\<lambda>y. combo_key y \<noteq> combo_key c) (filter (\<lambda>c. combo_key c \<notin> seen) cs)
            = filter (\<lambda>y. combo_key y \<notin> insert (combo_key c) seen) cs"
      by (simp add: conj_commute)
    with False step show ?thesis using Cons.IH [of "u @ [c]" "insert (combo_key c) seen"] by simp
  qed
qed

lemma mixAndMatch_pipeline:
  "mixAndMatch garments profile =
     take 12 (keep_first combo_key
       (filter (\<lambda>c. list_all (acceptable_item profile) (items c)) (candidates garments profile)))"
  by (simp add: mixAndMatch_def Let_def dedup_fold)

lemma set_keep_first: "set (keep_first key xs) \<subseteq> set xs"
proof (induction key xs rule: keep_first.induct)
  case (1 key)
  show ?case by simp
next
  case (2 key x xs)
  then show ?case by auto
qed

lemma distinct_keep_first: "distinct (map key (keep_first key xs))"
proof (induction key xs rule: keep_first.induct)
  case (1 key)
  show ?case by simp
next
  case (2 key x xs)
  have "key x \<notin> key ` set (keep_first key (filter (\<lambda>y. key y \<noteq> key x) xs))"
  proof
    assume "key x \<in> key ` set (keep_first key (filter (\<lambda>y. key y \<noteq> key x) xs))"
    then obtain y where y: "y \<in> set (keep_first key (filter (\<lambda>y. key y \<noteq> key x) xs))"
      and k: "key x = key y" by (rule imageE)
    from y have "y \<in> set (filter (\<lambda>y. key y \<noteq> key x) xs)"
      by (rule subsetD [OF set_keep_first])
    with k show False by simp
  qed
  moreover have "distinct (map key (keep_first key (filter (\<lambda>y. key y \<noteq> key x) xs)))"
    by (rule 2)
  ultimately show ?case by simp
qed

lemma mixAndMatch_subset:
  assumes "c \<in> set (mixAndMatch garments profile)"
  shows "c \<in> set (candidates garments profile) \<and> list_all (acceptable_item profile) (items c)"
proof -
  from assms have "c \<in> set (keep_first combo_key
       (filter (\<lambda>c. list_all (acceptable_item profile) (items c)) (candidates garments profile)))"
    unfolding mixAndMatch_pipeline by (rule in_set_takeD)
  then have "c \<in> set (filter (\<lambda>c. list_all (acceptable_item profile) (items c)) (candidates garments profile))"
    by (rule subsetD [OF set_keep_first])
  then show ?thesis by simp
qed


section \<open>Where candidates come from and what they look like\<close>

lemma dress_step_member:
  assumes "c \<in> set (dress_step outers shoes [] d)"
  shows "\<exists>sh\<in>set shoes. 60 < colorDistance (colorHex sh) (colorHex d) \<and>
           (items c = [d, sh] \<or> (\<exists>l\<in>set outers. items c = [d, l, sh]))"
proof (cases "find (\<lambda>s. 3600 < distSq (colorHex s) (colorHex d)) shoes")
  case None
  with assms show ?thesis by (simp add: dress_step_eq)
next
  case (Some sh)
  let ?layer = "find (\<lambda>ou. 8100 < distSq (colorHex ou) (colorHex d)) outers"
  from find_Some_set [OF Some] have sh: "sh \<in> set shoes" "60 < colorDistance (colorHex sh) (colorHex d)"
    by (simp_all add: exceeds_60)
  from assms Some have it: "items c = [d] @ option_items ?layer @ [sh]"
    by (simp add: dress_step_eq)
  show ?thesis
  proof (cases ?layer)
    case None
    with it have "items c = [d, sh]" by (simp add: option_items_def)
    with sh show ?thesis by blast
  next
    case (Some l)
    from find_Some_set [OF Some] have "l \<in> set outers" by simp
    moreover from Some it have "items c = [d, l, sh]" by (simp add: option_items_def)
    ultimately show ?thesis using sh by blast
  qed
qed

lemma top_step_member:
  assumes "c \<in> set (top_step rules bottoms outers shoes [] t)"
  shows "\<exists>b\<in>set bottoms. 80 < colorDistance (colorHex b) (colorHex t) \<and>
           (items c = [t, b] \<or> (\<exists>l\<in>set outers. items c = [t, b, l]) \<or>
            (\<exists>s\<in>set shoes. items c = [t, b, s]) \<or>
            (\<exists>l\<in>set outers. \<exists>s\<in>set shoes. items c = [t, b, l, s]))"
proof (cases "find (\<lambda>b. 6400 < distSq (colorHex b) (colorHex t)) bottoms")
  case None
  with assms show ?thesis by (simp add: top_step_eq)
next
  case (Some b)
  let ?layer = "find (\<lambda>ou. 8100 < distSq (colorHex ou) (colorHex t)) outers"
  let ?shoe = "find (\<lambda>s. 3600 < distSq (colorHex s) (colorHex b)) shoes"
  from find_Some_set [OF Some] have b: "b \<in> set bottoms" "80 < colorDistance (colorHex b) (colorHex t)"
    by (simp_all add: exceeds_80)
  from assms Some have it: "items c = [t, b] @ option_items ?layer @ option_items ?shoe"
    by (simp add: top_step_eq)
  have layer: "option_items ?layer = [] \<or> (\<exists>l\<in>set outers. option_items ?layer = [l])"
  proof (cases ?layer)
    case None
    then show ?thesis by (simp add: option_items_def)
  next
    case (Some l)
    from find_Some_set [OF Some] have "l \<in> set outers" by simp
    with Some show ?thesis by (simp add: option_items_def)
  qed
  have shoe: "option_items ?shoe = [] \<or> (\<exists>s\<in>set shoes. option_items ?shoe = [s])"
  proof (cases ?shoe)
    case None
    then show ?thesis by (simp add: option_items_def)
  next
    case (Some s)
    from find_Some_set [OF Some] have "s \<in> set shoes" by simp
    with Some show ?thesis by (simp add: option_items_def)
  qed
  from layer shoe it have
    "items c = [t, b] \<or> (\<exists>l\<in>set outers. items c = [t, b, l]) \<or>
     (\<exists>s\<in>set shoes. items c = [t, b, s]) \<or>
     (\<exists>l\<in>set outers. \<exists>s\<in>set shoes. items c = [t, b, l, s])"
    by auto
  with b show ?thesis by blast
qed

lemma candidates_cases:
  assumes "c \<in> set (candidates garments profile)"
  shows "(\<exists>d\<in>set (take 6 (filter (\<lambda>g. gtype g = Dress) garments)).
            c \<in> set (dress_step (filter (\<lambda>g. gtype g = Outerwear) garments)
                                 (filter (\<lambda>g. gtype g = Shoes) garments) [] d)) \<or>
         (\<exists>t\<in>set (take 8 (filter (\<lambda>g. gtype g = Top) garments)).
            c \<in> set (top_step (buildRules profile) (filter (\<lambda>g. gtype g = Bottom) garments)
                               (filter (\<lambda>g. gtype g = Outerwear) garments)
                               (filter (\<lambda>g. gtype g = Shoes) garments) [] t))"
  using assms unfolding candidates_concat by auto

lemma in_take_filter: "x \<in> set (take n (filter P xs)) \<Longrightarrow> x \<in> set xs \<and> P x"
proof -
  assume "x \<in> set (take n (filter P xs))"
  then have "x \<in> set (filter P xs)" by (rule in_set_takeD)
  then show ?thesis by simp
qed

lemma candidate_shape:
  assumes "c \<in> set (candidates garments profile)"
  shows "set (items c) \<subseteq> set garments \<and>
         map gtype (items c) \<in>
           {[Dress, Shoes], [Dress, Outerwear, Shoes], [Top, Bottom], [Top, Bottom, Outerwear],
            [Top, Bottom, Shoes], [Top, Bottom, Outerwear, Shoes]}"
proof -
  let ?O = "filter (\<lambda>g. gtype g = Outerwear) garments"
  let ?S = "filter (\<lambda>g. gtype g = Shoes) garments"
  let ?B = "filter (\<lambda>g. gtype g = Bottom) garments"
  from candidates_cases [OF assms] show ?thesis
  proof
    assume "\<exists>d\<in>set (take 6 (filter (\<lambda>g. gtype g = Dress) garments)). c \<in> set (dress_step ?O ?S [] d)"
    then obtain d where d: "d \<in> set (take 6 (filter (\<lambda>g. gtype g = Dress) garments))"
      and c: "c \<in> set (dress_step ?O ?S [] d)" by blast
    from in_take_filter [OF d] have dg: "d \<in> set garments" "gtype d = Dress" by simp_all
    from dress_step_member [OF c] obtain sh where sh: "sh \<in> set ?S"
      and it: "items c = [d, sh] \<or> (\<exists>l\<in>set ?O. items c = [d, l, sh])" by blast
    from it show ?thesis
    proof
      assume "items c = [d, sh]"
      with dg sh show ?thesis by simp
    next
      assume "\<exists>l\<in>set ?O. items c = [d, l, sh]"
      then obtain l where "l \<in> set ?O" "items c = [d, l, sh]" by blast
      with dg sh show ?thesis by simp
    qed
  next
    assume "\<exists>t\<in>set (take 8 (filter (\<lambda>g. gtype g = Top) garments)).
              c \<in> set (top_step (buildRules profile) ?B ?O ?S [] t)"
    then obtain t where t: "t \<in> set (take 8 (filter (\<lambda>g. gtype g = Top) garments))"
      and c: "c \<in> set (top_step (buildRules profile) ?B ?O ?S [] t)" by blast
    from in_take_filter [OF t] have tg: "t \<in> set garments" "gtype t = Top" by simp_all
    from top_step_member [OF c] obtain b where b: "b \<in> set ?B"
      and it: "items c = [t, b] \<or> (\<exists>l\<in>set ?O. items c = [t, b, l]) \<or>
               (\<exists>s\<in>set ?S. items c = [t, b, s]) \<or>
               (\<exists>l\<in>set ?O. \<exists>s\<in>set ?S. items c = [t, b, l, s])" by blast
    from it consider "items c = [t, b]" | l where "l \<in> set ?O" "items c = [t, b, l]"
      | s where "s \<in> set ?S" "items c = [t, b, s]"
      | l s where "l \<in> set ?O" "s \<in> set ?S" "items c = [t, b, l, s]" by blast
    then show ?thesis
    proof cases
      case 1
      with tg b show ?thesis by simp
    next
      case 2
      with tg b show ?thesis by simp
    next
      case 3
      with tg b show ?thesis by simp
    next
      case 4
      with tg b show ?thesis by simp
    qed
  qed
qed

text \<open>
  Claim C10.  Every outfit returned by \<open>mixAndMatch\<close> has between two and four items,
  all of them garments of the wardrobe; its first item is a dress or a top; it has no
  accessory; and its garment types, in order, are dress, optional outerwear, shoes, or
  top, bottom, optional outerwear, optional shoes.
\<close>

theorem mixAndMatch_outfit_shape:
  assumes "c \<in> set (mixAndMatch garments profile)"
  shows "2 \<le> length (items c) \<and> length (items c) \<le> 4 \<and>
         set (items c) \<subseteq> set garments \<and>
         (gtype (hd (items c)) = Dress \<or> gtype (hd (items c)) = Top) \<and>
         (\<forall>i\<in>set (items c). gtype i \<noteq> Accessory) \<and>
         map gtype (items c) \<in>
           {[Dress, Shoes], [Dress, Outerwear, Shoes], [Top, Bottom], [Top, Bottom, Outerwear],
            [Top, Bottom, Shoes], [Top, Bottom, Outerwear, Shoes]}"
proof -
  from mixAndMatch_subset [OF assms] have "c \<in> set (candidates garments profile)" by simp
  from candidate_shape [OF this] have sub: "set (items c) \<subseteq> set garments"
    and shape: "map gtype (items c) \<in>
           {[Dress, Shoes], [Dress, Outerwear, Shoes], [Top, Bottom], [Top, Bottom, Outerwear],
            [Top, Bottom, Shoes], [Top, Bottom, Outerwear, Shoes]}" by blast+
  from shape have len: "2 \<le> length (map gtype (items c)) \<and> length (map gtype (items c)) \<le> 4"
    by auto
  from shape have hd: "hd (map gtype (items c)) = Dress \<or> hd (map gtype (items c)) = Top"
    by auto
  from len have ne: "items c \<noteq> []" by auto
  from shape have "Accessory \<notin> set (map gtype (items c))" by auto
  then have acc: "\<forall>i\<in>set (items c). gtype i \<noteq> Accessory"
    by (metis image_eqI set_map)
  from len hd ne sub acc shape show ?thesis by (simp add: hd_map)
qed

theorem mixAndMatch_outfit_shape_witness:
  "outfit_black_red \<in> set (mixAndMatch wardrobe_2x2 default_profile) \<and>
   (2 \<le> length (items outfit_black_red) \<and> length (items outfit_black_red) \<le> 4 \<and>
    set (items outfit_black_red) \<subseteq> set wardrobe_2x2 \<and>
    (gtype (hd (items outfit_black_red)) = Dress \<or> gtype (hd (items outfit_black_red)) = Top) \<and>
    list_all (\<lambda>i. gtype i \<noteq> Accessory) (items outfit_black_red) \<and>
    map gtype (items outfit_black_red) \<in>
      {[Dress, Shoes], [Dress, Outerwear, Shoes], [Top, Bottom], [Top, Bottom, Outerwear],
       [Top, Bottom, Shoes], [Top, Bottom, Outerwear, Shoes]})"
proof -
  have mem: "outfit_black_red \<in> set (mixAndMatch wardrobe_2x2 default_profile)"
    by (simp add: mm_2x2)
  from mixAndMatch_outfit_shape [OF mem] mem show ?thesis
    unfolding list_all_iff by blast
qed

section \<open>The compatibility filter and missing pairings\<close>

lemma acceptable_item_named:
  assumes "acceptable_item profile i" and "nameNearestColor (colorHex i) = Some n"
  shows "(\<forall>disliked. dislikedColors profile = Some disliked \<longrightarrow> n \<notin> set disliked) \<and>
         (\<forall>favorite. favoriteColors profile = Some favorite \<longrightarrow> favorite \<noteq> [] \<longrightarrow> n \<in> set favorite) \<and>
         (skinUndertone profile = Some Cool \<longrightarrow>
            n \<in> {''blue'', ''purple'', ''charcoal'', ''graphite'', ''white'', ''teal''}) \<and>
         (skinUndertone profile = Some Warm \<longrightarrow>
            n \<in> {''rust'', ''amber'', ''copper'', ''brown'', ''green'', ''off white''})"
proof -
  from assms have 1: "\<forall>disliked. dislikedColors profile = Some disliked \<longrightarrow> n \<notin> set disliked"
    by (simp add: acceptable_item_def array_includes_def split: option.splits)
  from assms have 2: "\<forall>favorite. favoriteColors profile = Some favorite \<longrightarrow> favorite \<noteq> [] \<longrightarrow> n \<in> set favorite"
    by (auto simp: acceptable_item_def array_includes_def split: option.splits)
  from assms have und: "isColorFriendly (colorHex i) profile"
    by (simp add: acceptable_item_def)
  from und assms(2) have 3: "skinUndertone profile = Some Cool \<longrightarrow>
            n \<in> {''blue'', ''purple'', ''charcoal'', ''graphite'', ''white'', ''teal''}"
    by (auto simp: isColorFriendly_def array_includes_def Let_def split: option.splits if_splits)
  from und assms(2) have 4: "skinUndertone profile = Some Warm \<longrightarrow>
            n \<in> {''rust'', ''amber'', ''copper'', ''brown'', ''green'', ''off white''}"
    by (auto simp: isColorFriendly_def array_includes_def Let_def split: option.splits if_splits)
  from 1 2 3 4 show ?thesis by blast
qed

text \<open>
  Claim C1.  Every item of every outfit returned by \<open>mixAndMatch\<close> has a colour name that
  is not among the disliked colours, that is among the favourite colours when the
  profile has a non-empty list of them, and that is in the friendly set of the
  profile's undertone when that is cool or warm; an absent or empty list of favourites,
  and an absent or neutral undertone, ask nothing.
\<close>

theorem mixAndMatch_items_acceptable:
  assumes "c \<in> set (mixAndMatch garments profile)" and "i \<in> set (items c)"
  shows "\<exists>n. nameNearestColor (colorHex i) = Some n \<and>
           (\<forall>disliked. dislikedColors profile = Some disliked \<longrightarrow> n \<notin> set disliked) \<and>
           (\<forall>favorite. favoriteColors profile = Some favorite \<longrightarrow> favorite \<noteq> [] \<longrightarrow> n \<in> set favorite) \<and>
           (skinUndertone profile = Some Cool \<longrightarrow>
              n \<in> {''blue'', ''purple'', ''charcoal'', ''graphite'', ''white'', ''teal''}) \<and>
           (skinUndertone profile = Some Warm \<longrightarrow>
              n \<in> {''rust'', ''amber'', ''copper'', ''brown'', ''green'', ''off white''})"
proof -
  from mixAndMatch_subset [OF assms(1)] have "list_all (acceptable_item profile) (items c)" by simp
  with assms(2) have acc: "acceptable_item profile i" by (simp add: list_all_iff)
  from nameNearestColor_Some [of "colorHex i"] obtain n where n: "nameNearestColor (colorHex i) = Some n"
    by blast
  show ?thesis
    by (rule exI [of _ n], rule conjI [OF n acceptable_item_named [OF acc n]])
qed

theorem mixAndMatch_items_acceptable_witness:
  "outfit_blue_white \<in> set (mixAndMatch wardrobe_cool cool_profile) \<and>
   top_blue \<in> set (items outfit_blue_white) \<and>
   skinUndertone cool_profile = Some Cool \<and>
   favoriteColors cool_profile = Some [''blue'', ''white''] \<and>
   dislikedColors cool_profile = Some [''red''] \<and>
   (\<exists>n. nameNearestColor (colorHex top_blue) = Some n \<and> n \<notin> set [''red''] \<and>
        n \<in> set [''blue'', ''white''] \<and>
        n \<in> {''blue'', ''purple'', ''charcoal'', ''graphite'', ''white'', ''teal''})"
proof -
  have mem: "outfit_blue_white \<in> set (mixAndMatch wardrobe_cool cool_profile)"
    by (simp add: mm_cool)
  have it: "top_blue \<in> set (items outfit_blue_white)" by (simp add: outfit_blue_white_def)
  have prof: "skinUndertone cool_profile = Some Cool"
    "favoriteColors cool_profile = Some [''blue'', ''white'']"
    "dislikedColors cool_profile = Some [''red'']"
    by (simp_all add: cool_profile_def default_profile_def)
  from mixAndMatch_items_acceptable [OF mem it] obtain n where
    all: "nameNearestColor (colorHex top_blue) = Some n \<and>
          (\<forall>disliked. dislikedColors cool_profile = Some disliked \<longrightarrow> n \<notin> set disliked) \<and>
          (\<forall>favorite. favoriteColors cool_profile = Some favorite \<longrightarrow> favorite \<noteq> []
              \<longrightarrow> n \<in> set favorite) \<and>
          (skinUndertone cool_profile = Some Cool \<longrightarrow>
              n \<in> {''blue'', ''purple'', ''charcoal'', ''graphite'', ''white'', ''teal''}) \<and>
          (skinUndertone cool_profile = Some Warm \<longrightarrow>
              n \<in> {''rust'', ''amber'', ''copper'', ''brown'', ''green'', ''off white''})" ..
  from all have n: "nameNearestColor (colorHex top_blue) = Some n" by (rule conjunct1)
  from all have "\<forall>disliked. dislikedColors cool_profile = Some disliked \<longrightarrow> n \<notin> set disliked"
    by (elim conjE)
  with prof(3) have d: "n \<notin> set [''red'']" by simp
  from all have "\<forall>favorite. favoriteColors cool_profile = Some favorite \<longrightarrow> favorite \<noteq> []
              \<longrightarrow> n \<in> set favorite"
    by (elim conjE)
  with prof(2) have f: "n \<in> set [''blue'', ''white'']" by simp
  from all have "skinUndertone cool_profile = Some Cool \<longrightarrow>
              n \<in> {''blue'', ''purple'', ''charcoal'', ''graphite'', ''white'', ''teal''}"
    by (elim conjE)
  with prof(1) have u: "n \<in> {''blue'', ''purple'', ''charcoal'', ''graphite'', ''white'', ''teal''}"
    by simp
  show ?thesis
    by (intro conjI exI [of _ n]) (fact mem it prof n d f u)+
qed

text \<open>A loop body adds nothing for an anchor without a contrasting partner.\<close>

lemma find_None_set: "(\<forall>x\<in>set xs. \<not> P x) \<Longrightarrow> find P xs = None"
  by (induction xs) simp_all

lemma dress_step_no_shoe:
  assumes "\<forall>s\<in>set shoes. \<not> 60 < colorDistance (colorHex s) (colorHex d)"
  shows "dress_step outers shoes combos d = combos"
proof -
  from assms have "find (\<lambda>s. 3600 < distSq (colorHex s) (colorHex d)) shoes = None"
    by (intro find_None_set) (simp add: exceeds_60)
  then show ?thesis by (simp add: dress_step_eq)
qed

lemma top_step_no_bottom:
  assumes "\<forall>b\<in>set bottoms. \<not> 80 < colorDistance (colorHex b) (colorHex t)"
  shows "top_step rules bottoms outers shoes combos t = combos"
proof -
  from assms have "find (\<lambda>b. 6400 < distSq (colorHex b) (colorHex t)) bottoms = None"
    by (intro find_None_set) (simp add: exceeds_80)
  then show ?thesis by (simp add: top_step_eq)
qed

lemma concat_map_empty: "(\<forall>x\<in>set xs. f x = []) \<Longrightarrow> concat (map f xs) = []"
  by (induction xs) simp_all

lemma mixAndMatch_no_candidates:
  assumes "candidates garments profile = []"
  shows "mixAndMatch garments profile = []"
  using assms by (simp add: mixAndMatch_pipeline)

lemma candidates_no_pairing:
  assumes dresses: "\<forall>d\<in>set garments. \<forall>s\<in>set garments. gtype d = Dress \<longrightarrow> gtype s = Shoes \<longrightarrow>
             \<not> 60 < colorDistance (colorHex s) (colorHex d)"
    and tops: "\<forall>t\<in>set garments. \<forall>b\<in>set garments. gtype t = Top \<longrightarrow> gtype b = Bottom \<longrightarrow>
             \<not> 80 < colorDistance (colorHex b) (colorHex t)"
  shows "candidates garments profile = []"
proof -
  let ?O = "filter (\<lambda>g. gtype g = Outerwear) garments"
  let ?S = "filter (\<lambda>g. gtype g = Shoes) garments"
  let ?B = "filter (\<lambda>g. gtype g = Bottom) garments"
  have A: "\<forall>d\<in>set (take 6 (filter (\<lambda>g. gtype g = Dress) garments)). dress_step ?O ?S [] d = []"
  proof
    fix d assume "d \<in> set (take 6 (filter (\<lambda>g. gtype g = Dress) garments))"
    from in_take_filter [OF this] have d: "d \<in> set garments" "gtype d = Dress" by simp_all
    with dresses have "\<forall>s\<in>set ?S. \<not> 60 < colorDistance (colorHex s) (colorHex d)" by simp
    then show "dress_step ?O ?S [] d = []" by (rule dress_step_no_shoe)
  qed
  have B: "\<forall>t\<in>set (take 8 (filter (\<lambda>g. gtype g = Top) garments)).
             top_step (buildRules profile) ?B ?O ?S [] t = []"
  proof
    fix t assume "t \<in> set (take 8 (filter (\<lambda>g. gtype g = Top) garments))"
    from in_take_filter [OF this] have t: "t \<in> set garments" "gtype t = Top" by simp_all
    with tops have "\<forall>b\<in>set ?B. \<not> 80 < colorDistance (colorHex b) (colorHex t)" by simp
    then show "top_step (buildRules profile) ?B ?O ?S [] t = []" by (rule top_step_no_bottom)
  qed
  show ?thesis unfolding candidates_concat
    using concat_map_empty [OF A] concat_map_empty [OF B] by simp
qed

text \<open>
  Claim C8.  \<open>mixAndMatch\<close> is a total function with no failing branch; on the empty
  wardrobe, and on any wardrobe in which no dress has a shoe farther than 60 and no top
  has a bottom farther than 80, it returns the empty list.
\<close>

theorem mixAndMatch_without_pairing_is_empty:
  "mixAndMatch [] profile = [] \<and>
   ((\<forall>d\<in>set garments. \<forall>s\<in>set garments. gtype d = Dress \<longrightarrow> gtype s = Shoes \<longrightarrow>
        \<not> 60 < colorDistance (colorHex s) (colorHex d)) \<longrightarrow>
    (\<forall>t\<in>set garments. \<forall>b\<in>set garments. gtype t = Top \<longrightarrow> gtype b = Bottom \<longrightarrow>
        \<not> 80 < colorDistance (colorHex b) (colorHex t)) \<longrightarrow>
    mixAndMatch garments profile = [])"
proof -
  have "candidates [] profile = []" by (rule candidates_no_pairing) simp_all
  then have "mixAndMatch [] profile = []" by (rule mixAndMatch_no_candidates)
  then show ?thesis using candidates_no_pairing mixAndMatch_no_candidates by blast
qed

theorem mixAndMatch_without_pairing_is_empty_witness:
  "mixAndMatch [] default_profile = [] \<and> mixAndMatch wardrobe_flat default_profile = [] \<and>
   list_all (\<lambda>g. colorHex g = ''#000000'') wardrobe_flat \<and>
   map gtype wardrobe_flat = [Top, Bottom, Dress, Shoes]"
proof -
  have flat: "list_all (\<lambda>g. colorHex g = ''#000000'') wardrobe_flat"
    "map gtype wardrobe_flat = [Top, Bottom, Dress, Shoes]"
    by (simp_all add: wardrobe_flat_def garment_def)
  have zero: "distSq ''#000000'' ''#000000'' = 0" by (simp add: distSq_def)
  have h1: "\<forall>d\<in>set wardrobe_flat. \<forall>s\<in>set wardrobe_flat. gtype d = Dress \<longrightarrow> gtype s = Shoes \<longrightarrow>
              \<not> 60 < colorDistance (colorHex s) (colorHex d)"
    by (simp add: wardrobe_flat_def garment_def exceeds_60 zero)
  have h2: "\<forall>t\<in>set wardrobe_flat. \<forall>b\<in>set wardrobe_flat. gtype t = Top \<longrightarrow> gtype b = Bottom \<longrightarrow>
              \<not> 80 < colorDistance (colorHex b) (colorHex t)"
    by (simp add: wardrobe_flat_def garment_def exceeds_80 zero)
  from mixAndMatch_without_pairing_is_empty [of default_profile wardrobe_flat] h1 h2
  have "mixAndMatch [] default_profile = [] \<and> mixAndMatch wardrobe_flat default_profile = []"
    by (elim conjE impE) simp_all
  with flat show ?thesis by simp
qed

text \<open>
  Claim C6.  Strategy A runs over at most the first six dresses, and a dress for which
  no shoe is farther than 60 adds nothing to the candidates; so a wardrobe without
  shoes and without tops, such as a single dress, gets the empty list.
\<close>

theorem strategyA_needs_contrasting_shoe:
  "strategyA dresses outers shoes = concat (map (dress_step outers shoes []) (take 6 dresses)) \<and>
   ((\<forall>s\<in>set shoes. \<not> 60 < colorDistance (colorHex s) (colorHex d)) \<longrightarrow>
      dress_step outers shoes combos d = combos) \<and>
   ((\<forall>g\<in>set garments. gtype g \<noteq> Shoes \<and> gtype g \<noteq> Top) \<longrightarrow>
      mixAndMatch garments profile = [])"
proof -
  have "mixAndMatch garments profile = []" if none: "\<forall>g\<in>set garments. gtype g \<noteq> Shoes \<and> gtype g \<noteq> Top"
  proof -
    from none have "candidates garments profile = []"
      by (intro candidates_no_pairing) simp_all
    then show ?thesis by (rule mixAndMatch_no_candidates)
  qed
  then show ?thesis using strategyA_concat dress_step_no_shoe by blast
qed

theorem strategyA_needs_contrasting_shoe_witness:
  "gtype dress_red = Dress \<and> mixAndMatch [dress_red] default_profile = [] \<and>
   strategyA [dress_red] [] [] = [] \<and> dress_step [] [] [] dress_red = []"
proof -
  have ty: "gtype dress_red = Dress" by (simp add: dress_red_def garment_def)
  then have h: "\<forall>g\<in>set [dress_red]. gtype g \<noteq> Shoes \<and> gtype g \<noteq> Top" by simp
  have e: "\<forall>s\<in>set []. \<not> 60 < colorDistance (colorHex s) (colorHex dress_red)" by simp
  note inst = strategyA_needs_contrasting_shoe
    [of "[dress_red]" "[]" "[]" dress_red "[]" "[dress_red]" default_profile]
  from inst have "strategyA [dress_red] [] [] = concat (map (dress_step [] [] []) (take 6 [dress_red]))"
    by (rule conjunct1)
  moreover from inst e have "dress_step [] [] [] dress_red = []" by blast
  moreover from inst h have "mixAndMatch [dress_red] default_profile = []" by blast
  ultimately have "strategyA [dress_red] [] [] = [] \<and> dress_step [] [] [] dress_red = [] \<and>
    mixAndMatch [dress_red] default_profile = []" by simp
  with ty show ?thesis by simp
qed

section \<open>Strategy B pairs each top with its first matches\<close>

lemma find_first_exceeding:
  "find (\<lambda>g. thr < colorDistance (colorHex g) hex) (filter (\<lambda>g. gtype g = ty) gs)
     = first_exceeding ty thr hex gs"
  by (induction gs) simp_all

lemma first_exceeding_find:
  "first_exceeding ty thr hex gs = find (\<lambda>g. gtype g = ty \<and> thr < colorDistance (colorHex g) hex) gs"
  by (induction gs) simp_all

lemma first_exceeding_Some_iff:
  "(first_exceeding ty thr hex gs = Some g) =
     (\<exists>i<length gs. gs ! i = g \<and> gtype g = ty \<and> thr < colorDistance (colorHex g) hex \<and>
        (\<forall>j<i. \<not> (gtype (gs ! j) = ty \<and> thr < colorDistance (colorHex (gs ! j)) hex)))"
  unfolding first_exceeding_find find_Some_iff by blast

lemma top_step_spec:
  "map items (top_step rules (filter (\<lambda>g. gtype g = Bottom) gs) (filter (\<lambda>g. gtype g = Outerwear) gs)
                (filter (\<lambda>g. gtype g = Shoes) gs) [] t)
     = (case strategyB_outfit gs t of None \<Rightarrow> [] | Some its \<Rightarrow> [its])"
  by (simp add: top_step_def strategyB_outfit_def find_first_exceeding Let_def option_items_def
      split: option.split)

lemma strategyB_spec:
  "map items (concat (map (top_step rules (filter (\<lambda>g. gtype g = Bottom) gs)
                              (filter (\<lambda>g. gtype g = Outerwear) gs)
                              (filter (\<lambda>g. gtype g = Shoes) gs) []) ts))
     = List.map_filter (strategyB_outfit gs) ts"
proof (induction ts)
  case Nil
  show ?case by (simp add: map_filter_simps)
next
  case (Cons t ts)
  then show ?case by (simp add: top_step_spec map_filter_simps split: option.split)
qed

lemma length_map_filter_le: "length (List.map_filter f xs) \<le> length xs"
  by (simp add: map_filter_def)

text \<open>
  Claim C5.  The candidates of Strategy B are, for the first eight tops in wardrobe
  order, at most one outfit each: none when no bottom is farther than 80 from the top,
  and otherwise the top, the first such bottom, the first outerwear farther than 90 from
  the top if there is one, and the first shoes farther than 60 from that bottom if
  there are any.  First means first in wardrobe order.
\<close>

theorem strategyB_first_match:
  "map items (candidates garments profile) =
     map items (strategyA (filter (\<lambda>g. gtype g = Dress) garments)
                  (filter (\<lambda>g. gtype g = Outerwear) garments)
                  (filter (\<lambda>g. gtype g = Shoes) garments))
     @ List.map_filter (strategyB_outfit garments) (take 8 (filter (\<lambda>g. gtype g = Top) garments)) \<and>
   length (List.map_filter (strategyB_outfit garments) (take 8 (filter (\<lambda>g. gtype g = Top) garments))) \<le> 8 \<and>
   ((first_exceeding ty thr hex garments = Some g) =
      (\<exists>i<length garments. garments ! i = g \<and> gtype g = ty \<and> thr < colorDistance (colorHex g) hex \<and>
         (\<forall>j<i. \<not> (gtype (garments ! j) = ty \<and> thr < colorDistance (colorHex (garments ! j)) hex))))"
proof -
  have "map items (candidates garments profile) =
     map items (strategyA (filter (\<lambda>g. gtype g = Dress) garments)
                  (filter (\<lambda>g. gtype g = Outerwear) garments)
                  (filter (\<lambda>g. gtype g = Shoes) garments))
     @ List.map_filter (strategyB_outfit garments) (take 8 (filter (\<lambda>g. gtype g = Top) garments))"
    by (simp add: candidates_def Let_def strategyB_concat strategyB_spec)
  moreover have "length (List.map_filter (strategyB_outfit garments)
                   (take 8 (filter (\<lambda>g. gtype g = Top) garments))) \<le> 8"
    using length_map_filter_le [of "strategyB_outfit garments" "take 8 (filter (\<lambda>g. gtype g = Top) garments)"]
    by simp
  ultimately show ?thesis using first_exceeding_Some_iff by blast
qed

lemma strategyB_2x2:
  "List.map_filter (strategyB_outfit wardrobe_2x2) (take 8 (filter (\<lambda>g. gtype g = Top) wardrobe_2x2))
     = [[top_black, bottom_red], [top_white, bottom_red]]"
  by (simp add: map_filter_simps strategyB_outfit_def option_items_def exceeds_60 exceeds_80 exceeds_90
      distSq_def palette_rgb_each example_defs)

theorem strategyB_first_match_witness:
  "map items (candidates wardrobe_2x2 default_profile) = [[top_black, bottom_red], [top_white, bottom_red]] \<and>
   first_exceeding Bottom 80 (colorHex top_white) wardrobe_2x2 = Some bottom_red \<and>
   first_exceeding Shoes 60 (colorHex bottom_red) wardrobe_2x2 = None"
proof -
  note inst = strategyB_first_match [of wardrobe_2x2 default_profile Bottom 80 "colorHex top_white" bottom_red]
  have A: "strategyA (filter (\<lambda>g. gtype g = Dress) wardrobe_2x2)
                  (filter (\<lambda>g. gtype g = Outerwear) wardrobe_2x2)
                  (filter (\<lambda>g. gtype g = Shoes) wardrobe_2x2) = []"
    by (simp add: strategyA_def example_defs)
  from inst have "map items (candidates wardrobe_2x2 default_profile) =
     map items (strategyA (filter (\<lambda>g. gtype g = Dress) wardrobe_2x2)
                  (filter (\<lambda>g. gtype g = Outerwear) wardrobe_2x2)
                  (filter (\<lambda>g. gtype g = Shoes) wardrobe_2x2))
     @ List.map_filter (strategyB_outfit wardrobe_2x2) (take 8 (filter (\<lambda>g. gtype g = Top) wardrobe_2x2))"
    by (rule conjunct1)
  then have 1: "map items (candidates wardrobe_2x2 default_profile)
                  = [[top_black, bottom_red], [top_white, bottom_red]]"
    by (simp only: A strategyB_2x2 list.map append_Nil)
  have 2: "first_exceeding Bottom 80 (colorHex top_white) wardrobe_2x2 = Some bottom_red"
    by (simp add: exceeds_80 distSq_def palette_rgb_each example_defs)
  have 3: "first_exceeding Shoes 60 (colorHex bottom_red) wardrobe_2x2 = None"
    by (simp add: example_defs)
  from 1 2 3 show ?thesis by simp
qed

section \<open>Deduplication\<close>

lemma combo_key_fun: "combo_key = (\<lambda>c. join ''-'' (sort (map gid (items c))))"
  by (rule ext) (simp add: combo_key_def)

lemma mixAndMatch_distinct_keys: "distinct (map combo_key (mixAndMatch garments profile))"
proof -
  have "distinct (take 12 (map combo_key (keep_first combo_key
          (filter (\<lambda>c. list_all (acceptable_item profile) (items c)) (candidates garments profile)))))"
    by (rule distinct_take) (rule distinct_keep_first)
  then show ?thesis by (simp add: mixAndMatch_pipeline take_map)
qed

lemma shape_distinct:
  assumes "map gtype xs \<in>
           {[Dress, Shoes], [Dress, Outerwear, Shoes], [Top, Bottom], [Top, Bottom, Outerwear],
            [Top, Bottom, Shoes], [Top, Bottom, Outerwear, Shoes]}"
  shows "distinct xs"
proof -
  from assms have "distinct (map gtype xs)" by auto
  then show ?thesis by (simp add: distinct_map)
qed

text \<open>With unique ids in the wardrobe, the ids inside one candidate are pairwise different.\<close>

lemma candidate_ids_distinct:
  assumes ids: "distinct (map gid garments)" and c: "c \<in> set (candidates garments profile)"
  shows "distinct (map gid (items c))"
proof -
  from candidate_shape [OF c] have sub: "set (items c) \<subseteq> set garments"
    and shape: "map gtype (items c) \<in>
           {[Dress, Shoes], [Dress, Outerwear, Shoes], [Top, Bottom], [Top, Bottom, Outerwear],
            [Top, Bottom, Shoes], [Top, Bottom, Outerwear, Shoes]}" by simp_all
  from ids have "inj_on gid (set garments)" by (simp add: distinct_map)
  then have "inj_on gid (set (items c))" using sub by (rule inj_on_subset)
  with shape_distinct [OF shape] show ?thesis by (simp add: distinct_map)
qed

lemma same_ids_same_key:
  assumes "distinct (map gid (items a))" and "distinct (map gid (items b))"
    and "set (map gid (items a)) = set (map gid (items b))"
  shows "combo_key a = combo_key b"
proof -
  have "sort (map gid (items a)) = sort (map gid (items b))"
  proof (rule sorted_distinct_set_unique)
    show "sorted (sort (map gid (items a)))" by simp
    show "sorted (sort (map gid (items b)))" by simp
    show "distinct (sort (map gid (items a)))" using assms(1) by simp
    show "distinct (sort (map gid (items b)))" using assms(2) by simp
    show "set (sort (map gid (items a))) = set (sort (map gid (items b)))" using assms(3) by simp
  qed
  then show ?thesis by (simp add: combo_key_def)
qed

lemma mixAndMatch_id_sets_differ:
  assumes ids: "distinct (map gid garments)"
    and ij: "i < j" "j < length (mixAndMatch garments profile)"
  shows "set (map gid (items (mixAndMatch garments profile ! i)))
           \<noteq> set (map gid (items (mixAndMatch garments profile ! j)))"
proof
  let ?r = "mixAndMatch garments profile"
  assume same: "set (map gid (items (?r ! i))) = set (map gid (items (?r ! j)))"
  from ij have i: "i < length ?r" by simp
  have "?r ! i \<in> set ?r" using i by (rule nth_mem)
  from mixAndMatch_subset [OF this] have ci: "?r ! i \<in> set (candidates garments profile)" by simp
  have "?r ! j \<in> set ?r" using ij(2) by (rule nth_mem)
  from mixAndMatch_subset [OF this] have cj: "?r ! j \<in> set (candidates garments profile)" by simp
  have keq: "combo_key (?r ! i) = combo_key (?r ! j)"
    by (rule same_ids_same_key
          [OF candidate_ids_distinct [OF ids ci] candidate_ids_distinct [OF ids cj] same])
  have d: "distinct (map combo_key ?r)" by (rule mixAndMatch_distinct_keys)
  from nth_eq_iff_index_eq [OF d, of i j] i ij(2)
  have "(combo_key (?r ! i) = combo_key (?r ! j)) = (i = j)" by simp
  with keq have "i = j" by simp
  with ij(1) show False by simp
qed

text \<open>
  Claim C3, amended.  Deduplication keys an outfit by its sorted item ids joined with a
  hyphen and keeps the first outfit of each key, in order, before the cut at 12; so the
  keys of the result are pairwise different.  For a wardrobe whose garment ids are
  pairwise different, no two outfits at different positions of the result have the same
  set of item ids.
\<close>

theorem mixAndMatch_no_duplicate_item_sets:
  "mixAndMatch garments profile =
     take 12 (keep_first (\<lambda>c. join ''-'' (sort (map gid (items c))))
       (filter (\<lambda>c. list_all (acceptable_item profile) (items c)) (candidates garments profile))) \<and>
   distinct (map (\<lambda>c. join ''-'' (sort (map gid (items c)))) (mixAndMatch garments profile)) \<and>
   (distinct (map gid garments) \<longrightarrow>
      (\<forall>i j. i < j \<longrightarrow> j < length (mixAndMatch garments profile) \<longrightarrow>
         set (map gid (items (mixAndMatch garments profile ! i)))
           \<noteq> set (map gid (items (mixAndMatch garments profile ! j)))))"
proof (intro conjI impI allI)
  show "mixAndMatch garments profile =
     take 12 (keep_first (\<lambda>c. join ''-'' (sort (map gid (items c))))
       (filter (\<lambda>c. list_all (acceptable_item profile) (items c)) (candidates garments profile)))"
    using mixAndMatch_pipeline [of garments profile] unfolding combo_key_fun .
  show "distinct (map (\<lambda>c. join ''-'' (sort (map gid (items c)))) (mixAndMatch garments profile))"
    using mixAndMatch_distinct_keys [of garments profile] unfolding combo_key_fun .
  show "set (map gid (items (mixAndMatch garments profile ! i)))
          \<noteq> set (map gid (items (mixAndMatch garments profile ! j)))"
    if "distinct (map gid garments)" "i < j" "j < length (mixAndMatch garments profile)" for i j
    using that by (rule mixAndMatch_id_sets_differ)
qed

theorem mixAndMatch_no_duplicate_item_sets_witness:
  "distinct (map gid wardrobe_2x2) \<and> length (mixAndMatch wardrobe_2x2 default_profile) = 2 \<and>
   set (map gid (items (mixAndMatch wardrobe_2x2 default_profile ! 0)))
     \<noteq> set (map gid (items (mixAndMatch wardrobe_2x2 default_profile ! 1))) \<and>
   set (map gid (items (mixAndMatch wardrobe_2x2 default_profile ! 0))) = {''t1'', ''b1''} \<and>
   set (map gid (items (mixAndMatch wardrobe_2x2 default_profile ! 1))) = {''t2'', ''b1''}"
proof -
  have ids: "distinct (map gid wardrobe_2x2)" by (simp add: example_defs)
  have len: "length (mixAndMatch wardrobe_2x2 default_profile) = 2" by (simp add: mm_2x2)
  then have j: "1 < length (mixAndMatch wardrobe_2x2 default_profile)" by simp
  from mixAndMatch_no_duplicate_item_sets [of wardrobe_2x2 default_profile] ids
  have "\<forall>i j. i < j \<longrightarrow> j < length (mixAndMatch wardrobe_2x2 default_profile) \<longrightarrow>
         set (map gid (items (mixAndMatch wardrobe_2x2 default_profile ! i)))
           \<noteq> set (map gid (items (mixAndMatch wardrobe_2x2 default_profile ! j)))"
    by (elim conjE impE)
  with j have ne: "set (map gid (items (mixAndMatch wardrobe_2x2 default_profile ! 0)))
     \<noteq> set (map gid (items (mixAndMatch wardrobe_2x2 default_profile ! 1)))"
    by (elim allE [of _ 0] allE [of _ 1] impE) simp_all
  have s0: "set (map gid (items (mixAndMatch wardrobe_2x2 default_profile ! 0))) = {''t1'', ''b1''}"
    unfolding mm_2x2 by (simp add: example_defs)
  have s1: "set (map gid (items (mixAndMatch wardrobe_2x2 default_profile ! 1))) = {''t2'', ''b1''}"
    unfolding mm_2x2 by (simp add: example_defs)
  show ?thesis by (intro conjI) (fact ids len ne s0 s1)+
qed

text \<open>
  Without that uniqueness the property fails: here both outfits have the id set
  \<open>{x, y}\<close>, under the different keys \<open>x-x-y\<close> and \<open>x-y-y\<close>.
\<close>

theorem mixAndMatch_shared_ids_counterexample:
  "length (mixAndMatch wardrobe_shared_ids default_profile) = 2 \<and>
   map gid (items (mixAndMatch wardrobe_shared_ids default_profile ! 0)) = [''x'', ''x'', ''y''] \<and>
   map gid (items (mixAndMatch wardrobe_shared_ids default_profile ! 1)) = [''y'', ''x'', ''y''] \<and>
   set (map gid (items (mixAndMatch wardrobe_shared_ids default_profile ! 0)))
     = set (map gid (items (mixAndMatch wardrobe_shared_ids default_profile ! 1)))"
proof -
  have r: "map items (mixAndMatch wardrobe_shared_ids default_profile) =
     [[garment ''x'' Top ''#000000'', garment ''x'' Bottom ''#C0392B'', garment ''y'' Shoes ''#2980B9''],
      [garment ''y'' Top ''#FFFFFF'', garment ''x'' Bottom ''#C0392B'', garment ''y'' Shoes ''#2980B9'']]"
    by (simp add: eval_simps example_defs)
  then have len: "length (mixAndMatch wardrobe_shared_ids default_profile) = 2"
    by (metis length_map length_Cons list.size(3) numeral_2_eq_2)
  have n0: "items (mixAndMatch wardrobe_shared_ids default_profile ! 0)
              = map items (mixAndMatch wardrobe_shared_ids default_profile) ! 0"
    using len by simp
  have n1: "items (mixAndMatch wardrobe_shared_ids default_profile ! 1)
              = map items (mixAndMatch wardrobe_shared_ids default_profile) ! 1"
    using len by simp
  have i0: "map gid (items (mixAndMatch wardrobe_shared_ids default_profile ! 0)) = [''x'', ''x'', ''y'']"
    unfolding n0 r by (simp add: garment_def)
  have i1: "map gid (items (mixAndMatch wardrobe_shared_ids default_profile ! 1)) = [''y'', ''x'', ''y'']"
    unfolding n1 r by (simp add: garment_def)
  have "set (map gid (items (mixAndMatch wardrobe_shared_ids default_profile ! 0)))
     = set (map gid (items (mixAndMatch wardrobe_shared_ids default_profile ! 1)))"
    unfolding i0 i1 by auto
  with len i0 i1 show ?thesis by simp
qed

section \<open>The stored colour name is never read\<close>

lemma erase_colorName_fields [simp]:
  "gtype (erase_colorName g) = gtype g"
  "colorHex (erase_colorName g) = colorHex g"
  "gid (erase_colorName g) = gid g"
  by (simp_all add: erase_colorName_def)

lemma erase_combo_fields [simp]:
  "items (erase_combo c) = map erase_colorName (items c)"
  "rationale (erase_combo c) = rationale c"
  by (simp_all add: erase_combo_def)

lemma find_map_option: "find P (map f xs) = map_option f (find (\<lambda>x. P (f x)) xs)"
  by (induction xs) simp_all

lemma filter_type_erase:
  "filter (\<lambda>g. gtype g = ty) (map erase_colorName gs) = map erase_colorName (filter (\<lambda>g. gtype g = ty) gs)"
  by (induction gs) simp_all

lemma option_items_map:
  "option_items (map_option erase_colorName v) = map erase_colorName (option_items v)"
  by (cases v) (simp_all add: option_items_def)

lemma dress_rationale_erase:
  "dress_rationale (map_option erase_colorName layer) (erase_colorName d) = dress_rationale layer d"
  by (cases layer) (simp_all add: dress_rationale_def)

lemma top_rationale_erase:
  "top_rationale rules (erase_colorName t) (erase_colorName b) = top_rationale rules t b"
  by (simp add: top_rationale_def)

lemma dress_step_erase:
  "dress_step (map erase_colorName outers) (map erase_colorName shoes) [] (erase_colorName d)
     = map erase_combo (dress_step outers shoes [] d)"
proof (cases "find (\<lambda>s. 3600 < distSq (colorHex s) (colorHex d)) shoes")
  case None
  then show ?thesis by (simp add: dress_step_eq find_map_option)
next
  case (Some sh)
  then show ?thesis
    by (simp add: dress_step_eq find_map_option option_items_map dress_rationale_erase erase_combo_def)
qed

lemma top_step_erase:
  "top_step rules (map erase_colorName bottoms) (map erase_colorName outers)
       (map erase_colorName shoes) [] (erase_colorName t)
     = map erase_combo (top_step rules bottoms outers shoes [] t)"
proof (cases "find (\<lambda>b. 6400 < distSq (colorHex b) (colorHex t)) bottoms")
  case None
  then show ?thesis by (simp add: top_step_eq find_map_option)
next
  case (Some b)
  then show ?thesis
    by (simp add: top_step_eq find_map_option option_items_map top_rationale_erase erase_combo_def)
qed

lemma concat_map_erase:
  assumes "\<And>x. f (erase_colorName x) = map erase_combo (g x)"
  shows "concat (map f (map erase_colorName xs)) = map erase_combo (concat (map g xs))"
  using assms by (induction xs) simp_all

lemma candidates_erase:
  "candidates (map erase_colorName garments) profile = map erase_combo (candidates garments profile)"
proof -
  let ?O = "filter (\<lambda>g. gtype g = Outerwear) garments"
  let ?S = "filter (\<lambda>g. gtype g = Shoes) garments"
  let ?B = "filter (\<lambda>g. gtype g = Bottom) garments"
  have A: "concat (map (dress_step (map erase_colorName ?O) (map erase_colorName ?S) [])
                    (map erase_colorName (take 6 (filter (\<lambda>g. gtype g = Dress) garments))))
             = map erase_combo (concat (map (dress_step ?O ?S [])
                    (take 6 (filter (\<lambda>g. gtype g = Dress) garments))))"
    by (rule concat_map_erase) (rule dress_step_erase)
  have B: "concat (map (top_step (buildRules profile) (map erase_colorName ?B)
                          (map erase_colorName ?O) (map erase_colorName ?S) [])
                    (map erase_colorName (take 8 (filter (\<lambda>g. gtype g = Top) garments))))
             = map erase_combo (concat (map (top_step (buildRules profile) ?B ?O ?S [])
                    (take 8 (filter (\<lambda>g. gtype g = Top) garments))))"
    by (rule concat_map_erase) (rule top_step_erase)
  show ?thesis
    unfolding candidates_concat filter_type_erase take_map A B by simp
qed

lemma acceptable_item_erase: "acceptable_item profile (erase_colorName g) = acceptable_item profile g"
  unfolding acceptable_item_def erase_colorName_fields by (rule refl)

lemma acceptable_combo_erase:
  "list_all (acceptable_item profile) (map erase_colorName xs) = list_all (acceptable_item profile) xs"
  by (simp add: list_all_iff acceptable_item_erase)

lemma filter_acceptable_erase:
  "filter (\<lambda>c. list_all (acceptable_item profile) (items c)) (map erase_combo cs)
     = map erase_combo (filter (\<lambda>c. list_all (acceptable_item profile) (items c)) cs)"
  by (induction cs) (simp_all add: acceptable_combo_erase)

lemma combo_key_erase: "combo_key (erase_combo c) = combo_key c"
  by (simp add: combo_key_def comp_def)

lemma filter_key_erase:
  "filter (\<lambda>y. combo_key y \<noteq> k) (map erase_combo cs) = map erase_combo (filter (\<lambda>y. combo_key y \<noteq> k) cs)"
  by (induction cs) (simp_all add: combo_key_erase)

lemma keep_first_erase:
  "keep_first combo_key (map erase_combo cs) = map erase_combo (keep_first combo_key cs)"
proof (induction "combo_key" cs rule: keep_first.induct)
  case 1
  show ?case by simp
next
  case (2 x xs)
  then show ?case by (simp add: combo_key_erase filter_key_erase)
qed

lemma mixAndMatch_erase:
  "mixAndMatch (map erase_colorName garments) profile = map erase_combo (mixAndMatch garments profile)"
  by (simp add: mixAndMatch_pipeline candidates_erase filter_acceptable_erase keep_first_erase take_map)

text \<open>
  Claim C9.  The stored colour name of a garment plays no part: two wardrobes that
  differ at most in the \<open>colorName\<close> fields of their garments get outfits with the same
  item ids in the same order and with the same rationale strings; the outfits
  themselves differ at most in those fields.
\<close>

theorem mixAndMatch_ignores_colorName:
  assumes "length garments' = length garments"
    and "\<forall>k<length garments. garments' ! k = (garments ! k)\<lparr>colorName := colorName (garments' ! k)\<rparr>"
  shows "map (\<lambda>c. (map gid (items c), rationale c)) (mixAndMatch garments' profile)
           = map (\<lambda>c. (map gid (items c), rationale c)) (mixAndMatch garments profile) \<and>
         map erase_combo (mixAndMatch garments' profile) = map erase_combo (mixAndMatch garments profile)"
proof -
  have "map erase_colorName garments' = map erase_colorName garments"
  proof (rule nth_equalityI)
    show "length (map erase_colorName garments') = length (map erase_colorName garments)"
      using assms(1) by simp
  next
    fix k assume "k < length (map erase_colorName garments')"
    then have k: "k < length garments" using assms(1) by simp
    with assms(2) have "garments' ! k = (garments ! k)\<lparr>colorName := colorName (garments' ! k)\<rparr>" by simp
    then have "erase_colorName (garments' ! k) = erase_colorName (garments ! k)"
      by (metis erase_colorName_def Garment.update_convs(5) Garment.surjective)
    with k assms(1) show "map erase_colorName garments' ! k = map erase_colorName garments ! k" by simp
  qed
  then have e: "map erase_combo (mixAndMatch garments' profile) = map erase_combo (mixAndMatch garments profile)"
    using mixAndMatch_erase [of garments' profile] mixAndMatch_erase [of garments profile] by simp
  have "map (\<lambda>c. (map gid (items c), rationale c)) (map erase_combo (mixAndMatch garments' profile))
          = map (\<lambda>c. (map gid (items c), rationale c)) (map erase_combo (mixAndMatch garments profile))"
    by (simp only: e)
  then have "map (\<lambda>c. (map gid (items c), rationale c)) (mixAndMatch garments' profile)
           = map (\<lambda>c. (map gid (items c), rationale c)) (mixAndMatch garments profile)"
    by (simp add: comp_def)
  with e show ?thesis by simp
qed

theorem mixAndMatch_ignores_colorName_witness:
  "map colorName wardrobe_2x2 = [[], [], [], []] \<and>
   map colorName wardrobe_2x2_renamed = [''mauve'', ''mauve'', ''mauve'', ''mauve''] \<and>
   map (\<lambda>c. (map gid (items c), rationale c)) (mixAndMatch wardrobe_2x2_renamed default_profile)
     = [([''t1'', ''b1''], [''Top (black) with red bottom for contrast'']),
        ([''t2'', ''b1''], [''Top (white) with red bottom for contrast''])]"
proof -
  have len: "length wardrobe_2x2_renamed = length wardrobe_2x2"
    by (simp add: wardrobe_2x2_renamed_def)
  have same: "\<forall>k<length wardrobe_2x2.
      wardrobe_2x2_renamed ! k = (wardrobe_2x2 ! k)\<lparr>colorName := colorName (wardrobe_2x2_renamed ! k)\<rparr>"
    by (simp add: wardrobe_2x2_renamed_def)
  from mixAndMatch_ignores_colorName [OF len same, of default_profile]
  have "map (\<lambda>c. (map gid (items c), rationale c)) (mixAndMatch wardrobe_2x2_renamed default_profile)
           = map (\<lambda>c. (map gid (items c), rationale c)) (mixAndMatch wardrobe_2x2 default_profile)"
    by (rule conjunct1)
  also have "\<dots> = [([''t1'', ''b1''], [''Top (black) with red bottom for contrast'']),
        ([''t2'', ''b1''], [''Top (white) with red bottom for contrast''])]"
    unfolding mm_2x2 by (simp add: example_defs)
  finally have r: "map (\<lambda>c. (map gid (items c), rationale c)) (mixAndMatch wardrobe_2x2_renamed default_profile)
     = [([''t1'', ''b1''], [''Top (black) with red bottom for contrast'']),
        ([''t2'', ''b1''], [''Top (white) with red bottom for contrast''])]" .
  have n: "map colorName wardrobe_2x2 = [[], [], [], []]"
    "map colorName wardrobe_2x2_renamed = [''mauve'', ''mauve'', ''mauve'', ''mauve'']"
    by (simp_all add: wardrobe_2x2_renamed_def example_defs)
  show ?thesis by (intro conjI) (fact n r)+
qed

section \<open>Two tops and two bottoms\<close>

lemma acceptable_unconstrained:
  assumes "dislikedColors profile = None \<or> dislikedColors profile = Some []"
    and "favoriteColors profile = None \<or> favoriteColors profile = Some []"
    and "skinUndertone profile = None \<or> skinUndertone profile = Some Neutral"
  shows "acceptable_item profile i"
proof -
  from assms(1) have d: "case dislikedColors profile of None \<Rightarrow> True
      | Some disliked \<Rightarrow> \<not> array_includes disliked (nameNearestColor (colorHex i))"
    by (auto simp: array_includes_def split: option.splits)
  from assms(2) have f: "case favoriteColors profile of None \<Rightarrow> True
      | Some favorite \<Rightarrow> length favorite = 0 \<or> array_includes favorite (nameNearestColor (colorHex i))"
    by (auto split: option.splits)
  from assms(3) have u: "isColorFriendly (colorHex i) profile"
    by (auto simp: isColorFriendly_def Let_def)
  from d f u show ?thesis unfolding acceptable_item_def by (intro conjI)
qed

lemma in_filter_Cons:
  assumes "filter P xs = y # ys"
  shows "y \<in> set xs \<and> P y"
proof -
  have "y \<in> set (filter P xs)" unfolding assms by simp
  then show ?thesis by simp
qed

lemma no_other_type:
  assumes "\<forall>g\<in>set garments. gtype g = Top \<or> gtype g = Bottom" and "ty \<noteq> Top" and "ty \<noteq> Bottom"
  shows "filter (\<lambda>g. gtype g = ty) garments = []"
  using assms by (auto simp: filter_empty_conv)

lemma keep_first_two:
  "keep_first key [a, b] = (if key b = key a then [a] else [a, b])"
  by simp

lemma same_pair_sets: "{a, c} = {b, c} \<Longrightarrow> a = b"
  by (metis doubleton_eq_iff)

text \<open>
  Claim C7.  For a wardrobe of exactly two tops and two bottoms whose colours are
  pairwise farther apart than 80, and a profile without constraints, \<open>mixAndMatch\<close>
  returns at most four outfits, within the cap, no two of them with the same id set.
  The result is in fact one outfit per top, each with the first bottom, and the second
  is dropped when its key equals the first's.
\<close>

theorem two_tops_two_bottoms:
  assumes tops: "filter (\<lambda>g. gtype g = Top) garments = [t1, t2]"
    and bottoms: "filter (\<lambda>g. gtype g = Bottom) garments = [b1, b2]"
    and only: "\<forall>g\<in>set garments. gtype g = Top \<or> gtype g = Bottom"
    and far: "\<forall>x\<in>set garments. \<forall>y\<in>set garments. x \<noteq> y \<longrightarrow> 80 < colorDistance (colorHex x) (colorHex y)"
    and disliked: "dislikedColors profile = None \<or> dislikedColors profile = Some []"
    and favorite: "favoriteColors profile = None \<or> favoriteColors profile = Some []"
    and undertone: "skinUndertone profile = None \<or> skinUndertone profile = Some Neutral"
  shows "length (mixAndMatch garments profile) \<le> 4 \<and>
         length (mixAndMatch garments profile) \<le> 12 \<and>
         (\<forall>i j. i < j \<longrightarrow> j < length (mixAndMatch garments profile) \<longrightarrow>
            set (map gid (items (mixAndMatch garments profile ! i)))
              \<noteq> set (map gid (items (mixAndMatch garments profile ! j)))) \<and>
         map items (mixAndMatch garments profile) =
           (if join ''-'' (sort [gid t2, gid b1]) = join ''-'' (sort [gid t1, gid b1])
            then [[t1, b1]] else [[t1, b1], [t2, b1]])"
proof -
  let ?rules = "buildRules profile"
  let ?c1 = "\<lparr> items = [t1, b1], rationale = top_rationale ?rules t1 b1 \<rparr>"
  let ?c2 = "\<lparr> items = [t2, b1], rationale = top_rationale ?rules t2 b1 \<rparr>"
  from in_filter_Cons [OF tops] have t1: "t1 \<in> set garments" "gtype t1 = Top" by simp_all
  have "filter (\<lambda>g. gtype g = Top) garments = [t1] @ t2 # []" using tops by simp
  then have "t2 \<in> set (filter (\<lambda>g. gtype g = Top) garments)" by simp
  then have t2: "t2 \<in> set garments" "gtype t2 = Top" by simp_all
  from in_filter_Cons [OF bottoms] have b1: "b1 \<in> set garments" "gtype b1 = Bottom" by simp_all
  from t1 b1 have "b1 \<noteq> t1" by auto
  with far t1 b1 have "80 < colorDistance (colorHex b1) (colorHex t1)" by blast
  then have f1: "find (\<lambda>b. 6400 < distSq (colorHex b) (colorHex t1)) [b1, b2] = Some b1"
    by (simp add: exceeds_80)
  from t2 b1 have "b1 \<noteq> t2" by auto
  with far t2 b1 have "80 < colorDistance (colorHex b1) (colorHex t2)" by blast
  then have f2: "find (\<lambda>b. 6400 < distSq (colorHex b) (colorHex t2)) [b1, b2] = Some b1"
    by (simp add: exceeds_80)
  have dresses: "filter (\<lambda>g. gtype g = Dress) garments = []"
    by (rule no_other_type [OF only]) simp_all
  have outers: "filter (\<lambda>g. gtype g = Outerwear) garments = []"
    by (rule no_other_type [OF only]) simp_all
  have shoes: "filter (\<lambda>g. gtype g = Shoes) garments = []"
    by (rule no_other_type [OF only]) simp_all
  have s1: "top_step ?rules [b1, b2] [] [] [] t1 = [?c1]"
    unfolding top_step_eq f1 by (simp add: option_items_def)
  have s2: "top_step ?rules [b1, b2] [] [] [] t2 = [?c2]"
    unfolding top_step_eq f2 by (simp add: option_items_def)
  have cands: "candidates garments profile = [?c1, ?c2]"
    unfolding candidates_concat tops bottoms dresses outers shoes
    by (simp add: s1 s2)
  have acc: "filter (\<lambda>c. list_all (acceptable_item profile) (items c)) [?c1, ?c2] = [?c1, ?c2]"
    using acceptable_unconstrained [OF disliked favorite undertone] by simp
  have res: "mixAndMatch garments profile
               = (if combo_key ?c2 = combo_key ?c1 then [?c1] else [?c1, ?c2])"
    unfolding mixAndMatch_pipeline cands acc keep_first_two by simp
  have keys: "combo_key ?c1 = join ''-'' (sort [gid t1, gid b1])"
    "combo_key ?c2 = join ''-'' (sort [gid t2, gid b1])"
    by (simp_all add: combo_key_def)
  have differ: "set (map gid (items (mixAndMatch garments profile ! i)))
              \<noteq> set (map gid (items (mixAndMatch garments profile ! j)))"
    if ij: "i < j" "j < length (mixAndMatch garments profile)" for i j
  proof (cases "combo_key ?c2 = combo_key ?c1")
    case True
    with res ij show ?thesis by simp
  next
    case False
    with res have r: "mixAndMatch garments profile = [?c1, ?c2]" by simp
    with ij have "i = 0" "j = 1" by simp_all
    moreover have "set [gid t1, gid b1] \<noteq> set [gid t2, gid b1]"
    proof
      assume "set [gid t1, gid b1] = set [gid t2, gid b1]"
      then have "{gid t1, gid b1} = {gid t2, gid b1}" by simp
      then have "gid t1 = gid t2" by (rule same_pair_sets)
      then have "combo_key ?c2 = combo_key ?c1" by (simp add: combo_key_def)
      with False show False by simp
    qed
    ultimately show ?thesis unfolding r by simp
  qed
  have l4: "length (mixAndMatch garments profile) \<le> 4" unfolding res by simp
  have l12: "length (mixAndMatch garments profile) \<le> 12" unfolding res by simp
  have its: "map items (mixAndMatch garments profile) =
           (if join ''-'' (sort [gid t2, gid b1]) = join ''-'' (sort [gid t1, gid b1])
            then [[t1, b1]] else [[t1, b1], [t2, b1]])"
    unfolding res keys by simp
  from l4 l12 differ its show ?thesis by blast
qed

theorem two_tops_two_bottoms_witness:
  "map gtype wardrobe_2x2 = [Top, Top, Bottom, Bottom] \<and>
   map items (mixAndMatch wardrobe_2x2 default_profile)
     = [[top_black, bottom_red], [top_white, bottom_red]] \<and>
   length (mixAndMatch wardrobe_2x2 default_profile) \<le> 4"
proof -
  have tops: "filter (\<lambda>g. gtype g = Top) wardrobe_2x2 = [top_black, top_white]"
    by (simp add: example_defs)
  have bottoms: "filter (\<lambda>g. gtype g = Bottom) wardrobe_2x2 = [bottom_red, bottom_blue]"
    by (simp add: example_defs)
  have only: "\<forall>g\<in>set wardrobe_2x2. gtype g = Top \<or> gtype g = Bottom"
    by (simp add: example_defs)
  have far: "\<forall>x\<in>set wardrobe_2x2. \<forall>y\<in>set wardrobe_2x2.
               x \<noteq> y \<longrightarrow> 80 < colorDistance (colorHex x) (colorHex y)"
    by (simp add: example_defs exceeds_80 distSq_def palette_rgb_each)
  have prof: "dislikedColors default_profile = None \<or> dislikedColors default_profile = Some []"
    "favoriteColors default_profile = None \<or> favoriteColors default_profile = Some []"
    "skinUndertone default_profile = None \<or> skinUndertone default_profile = Some Neutral"
    by (simp_all add: default_profile_def)
  note inst = two_tops_two_bottoms [OF tops bottoms only far prof]
  have k: "join ''-'' (sort [gid top_white, gid bottom_red]) \<noteq> join ''-'' (sort [gid top_black, gid bottom_red])"
    by (simp add: example_defs)
  from inst have "map items (mixAndMatch wardrobe_2x2 default_profile) =
           (if join ''-'' (sort [gid top_white, gid bottom_red]) = join ''-'' (sort [gid top_black, gid bottom_red])
            then [[top_black, bottom_red]] else [[top_black, bottom_red], [top_white, bottom_red]])"
    by (elim conjE)
  with k have 1: "map items (mixAndMatch wardrobe_2x2 default_profile)
     = [[top_black, bottom_red], [top_white, bottom_red]]" by simp
  from inst have 2: "length (mixAndMatch wardrobe_2x2 default_profile) \<le> 4" by (rule conjunct1)
  have 3: "map gtype wardrobe_2x2 = [Top, Top, Bottom, Bottom]" by (simp add: example_defs)
  show ?thesis by (intro conjI) (fact 1 2 3)+
qed

end
